theory Spec2Isabelle
  imports Main "HOL-Library.AList"
begin

text \<open>
  A shallow embedding of the MCP integration for a chatbot host: the stdio client and
  the per-call integration that uses it (\<open>index2.ts\<close> with the unnamed client file
  \<open>part_003\<close>), the cached-client integration (\<open>index.ts\<close>), the first registration
  variant (\<open>part_002\<close>), and the registry-resolving client and integration
  (\<open>client3.ts\<close>, \<open>index3.ts\<close>). Asynchronous functions are modelled by their results: a
  function returns what its promise settles with, and the events it caused on the way.
\<close>

section \<open>JavaScript values and built-ins used by the integration\<close>

text \<open>
  The integration is TypeScript over loosely typed (\<open>any\<close>) configuration values. A value
  that reaches the code is a JSON value or \<open>undefined\<close>; \<open>undefined\<close> is \<open>None\<close> of an
  option type. A string of the language is a sequence of 16-bit code units; here a
  code unit is a natural number and a string a list of them. Nothing in the code
  computes with code units, so the bound of 16 bits plays no role. A text of the source
  is written \<open>lit ''...''\<close>, a character of the source \<open>cu CHR ''...''\<close>.

  A number is kept as the lexeme it was written with. What a number converts to
  (\<open>String(n)\<close>) and whether it is zero (its truthiness) are floating-point questions that
  the model does not answer: wherever the source asks them, the answer is a parameter
  (\<open>numstr\<close>, \<open>numzero\<close>).
\<close>

type_synonym code_unit = nat
type_synonym jstring = "code_unit list"

definition lit :: "string \<Rightarrow> jstring" where
  "lit s = map of_char s"

abbreviation cu :: "char \<Rightarrow> code_unit" where
  "cu c \<equiv> of_char c"

datatype json =
    JNull
  | JBool bool
  | JNum jstring
  | JStr jstring
  | JArr "json list"
  | JObj "(jstring \<times> json) list"

text \<open>\<open>xs.join(sep)\<close> on an array of strings.\<close>

fun join :: "jstring \<Rightarrow> jstring list \<Rightarrow> jstring" where
  "join sep [] = []"
| "join sep [x] = x"
| "join sep (x # y # ys) = x @ sep @ join sep (y # ys)"

text \<open>
  \<open>String(v)\<close>: a string is itself, \<open>null\<close> and booleans are their names, an array is its
  elements joined by commas (with \<open>null\<close> as the empty string), any other object is
  \<open>[object Object]\<close>.
\<close>

fun js_String :: "(jstring \<Rightarrow> jstring) \<Rightarrow> json \<Rightarrow> jstring" where
  "js_String numstr JNull = lit ''null''"
| "js_String numstr (JBool b) = (if b then lit ''true'' else lit ''false'')"
| "js_String numstr (JNum l) = numstr l"
| "js_String numstr (JStr s) = s"
| "js_String numstr (JArr vs) =
     join (lit '','') (map (\<lambda>v. if v = JNull then [] else js_String numstr v) vs)"
| "js_String numstr (JObj kvs) = lit ''[object Object]''"

text \<open>Truthiness of a value (\<open>if (v)\<close>, \<open>!v\<close>, \<open>v || d\<close>).\<close>

fun truthy :: "(jstring \<Rightarrow> bool) \<Rightarrow> json \<Rightarrow> bool" where
  "truthy numzero JNull = False"
| "truthy numzero (JBool b) = b"
| "truthy numzero (JNum l) = (\<not> numzero l)"
| "truthy numzero (JStr s) = (s \<noteq> [])"
| "truthy numzero (JArr vs) = True"
| "truthy numzero (JObj kvs) = True"

text \<open>\<open>s.startsWith(p)\<close>, \<open>s.includes(p)\<close> and \<open>s.split(c)\<close> for a one-character separator.\<close>

definition startsWith :: "jstring \<Rightarrow> jstring \<Rightarrow> bool" where
  "startsWith s p = (take (length p) s = p)"

fun str_includes :: "jstring \<Rightarrow> jstring \<Rightarrow> bool" where
  "str_includes [] p = (p = [])"
| "str_includes (c # cs) p = (startsWith (c # cs) p \<or> str_includes cs p)"

fun split :: "code_unit \<Rightarrow> jstring \<Rightarrow> jstring list" where
  "split sep [] = [[]]"
| "split sep (c # cs) =
     (if c = sep then [] # split sep cs
      else (case split sep cs of [] \<Rightarrow> [[c]] | t # ts \<Rightarrow> (c # t) # ts))"

subsection \<open>A model of \<open>JSON.parse\<close>\<close>

text \<open>
  \<open>JSON.parse\<close> is a built-in of the language; the model follows the JSON grammar
  (ECMA-404): optional white space, objects, arrays, strings with their escapes, numbers,
  and the three literals. \<open>None\<close> is the \<open>SyntaxError\<close> that \<open>JSON.parse\<close> throws. An
  escape \<open>\uXXXX\<close> is the code unit its four hexadecimal digits name, a surrogate
  included.
\<close>

definition is_ws :: "code_unit \<Rightarrow> bool" where
  "is_ws c = (c = 0x20 \<or> c = 0x09 \<or> c = 0x0A \<or> c = 0x0D)"

fun skip_ws :: "jstring \<Rightarrow> jstring" where
  "skip_ws [] = []"
| "skip_ws (c # cs) = (if is_ws c then skip_ws cs else c # cs)"

definition is_digit :: "code_unit \<Rightarrow> bool" where
  "is_digit c = (cu CHR ''0'' \<le> c \<and> c \<le> cu CHR ''9'')"

definition hex_digit :: "code_unit \<Rightarrow> nat option" where
  "hex_digit c =
     (if cu CHR ''0'' \<le> c \<and> c \<le> cu CHR ''9'' then Some (c - cu CHR ''0'')
      else if cu CHR ''a'' \<le> c \<and> c \<le> cu CHR ''f'' then Some (c - cu CHR ''a'' + 10)
      else if cu CHR ''A'' \<le> c \<and> c \<le> cu CHR ''F'' then Some (c - cu CHR ''A'' + 10)
      else None)"

definition hex4 :: "code_unit \<Rightarrow> code_unit \<Rightarrow> code_unit \<Rightarrow> code_unit \<Rightarrow> code_unit option" where
  "hex4 a b c d =
     (case (hex_digit a, hex_digit b, hex_digit c, hex_digit d) of
        (Some w, Some x, Some y, Some z) \<Rightarrow> Some (((w * 16 + x) * 16 + y) * 16 + z)
      | _ \<Rightarrow> None)"

text \<open>
  The code unit a two-character escape \<open>\e\<close> stands for; \<open>0x22\<close> is the double quote and
  \<open>0x5C\<close> the backslash.
\<close>

definition unescape :: "code_unit \<Rightarrow> code_unit option" where
  "unescape e =
     (if e = 0x22 then Some 0x22
      else if e = 0x5C then Some 0x5C
      else if e = cu CHR ''/'' then Some (cu CHR ''/'')
      else if e = cu CHR ''b'' then Some 0x08
      else if e = cu CHR ''f'' then Some 0x0C
      else if e = cu CHR ''n'' then Some 0x0A
      else if e = cu CHR ''r'' then Some 0x0D
      else if e = cu CHR ''t'' then Some 0x09
      else None)"

definition cons_fst :: "'a \<Rightarrow> ('a list \<times> 'b) option \<Rightarrow> ('a list \<times> 'b) option" where
  "cons_fst x r = (case r of None \<Rightarrow> None | Some (xs, rest) \<Rightarrow> Some (x # xs, rest))"

text \<open>
  The code units of a string after its opening quote, up to the closing quote. A control
  character (below \<open>0x20\<close>) must be escaped; every other code unit stands for itself.
\<close>

fun parse_chars :: "jstring \<Rightarrow> (jstring \<times> jstring) option" where
  "parse_chars [] = None"
| "parse_chars (c # cs) =
     (if c = 0x22 then Some ([], cs)
      else if c = 0x5C then
        (case cs of
           [] \<Rightarrow> None
         | e # r \<Rightarrow>
             (if e = cu CHR ''u'' then
                (case r of
                   h1 # h2 # h3 # h4 # r' \<Rightarrow>
                     (case hex4 h1 h2 h3 h4 of
                        None \<Rightarrow> None
                      | Some n \<Rightarrow> cons_fst n (parse_chars r'))
                 | _ \<Rightarrow> None)
              else
                (case unescape e of
                   None \<Rightarrow> None
                 | Some ch \<Rightarrow> cons_fst ch (parse_chars r))))
      else if c < 0x20 then None
      else cons_fst c (parse_chars cs))"

text \<open>
  A number's lexeme: an optional minus, an integer part without a leading zero, an
  optional fraction, an optional exponent.
\<close>

definition take_digits :: "jstring \<Rightarrow> jstring \<times> jstring" where
  "take_digits s = (takeWhile is_digit s, dropWhile is_digit s)"

definition parse_int_part :: "jstring \<Rightarrow> (jstring \<times> jstring) option" where
  "parse_int_part s =
     (case s of
        [] \<Rightarrow> None
      | c # cs \<Rightarrow>
          if c = cu CHR ''0'' then Some ([c], cs)
          else if is_digit c then (case take_digits cs of (ds, r) \<Rightarrow> Some (c # ds, r))
          else None)"

definition parse_frac :: "jstring \<Rightarrow> (jstring \<times> jstring) option" where
  "parse_frac s =
     (case s of
        c # cs \<Rightarrow>
          if c = cu CHR ''.'' then
            (case take_digits cs of (ds, r) \<Rightarrow> if ds = [] then None else Some (c # ds, r))
          else Some ([], s)
      | [] \<Rightarrow> Some ([], s))"

definition parse_exp :: "jstring \<Rightarrow> (jstring \<times> jstring) option" where
  "parse_exp s =
     (case s of
        c # cs \<Rightarrow>
          if c = cu CHR ''e'' \<or> c = cu CHR ''E'' then
            (case cs of
               d # ds \<Rightarrow>
                 if d = cu CHR ''+'' \<or> d = cu CHR ''-'' then
                   (case take_digits ds of (xs, r) \<Rightarrow> if xs = [] then None else Some (c # d # xs, r))
                 else
                   (case take_digits cs of (xs, r) \<Rightarrow> if xs = [] then None else Some (c # xs, r))
             | [] \<Rightarrow> None)
          else Some ([], s)
      | [] \<Rightarrow> Some ([], s))"

definition parse_number :: "jstring \<Rightarrow> (jstring \<times> jstring) option" where
  "parse_number s =
     (let (sign, s1) = (case s of c # cs \<Rightarrow> if c = cu CHR ''-'' then ([c], cs) else ([], s) | [] \<Rightarrow> ([], s))
      in case parse_int_part s1 of
           None \<Rightarrow> None
         | Some (i, s2) \<Rightarrow>
             (case parse_frac s2 of
                None \<Rightarrow> None
              | Some (f, s3) \<Rightarrow>
                  (case parse_exp s3 of
                     None \<Rightarrow> None
                   | Some (e, s4) \<Rightarrow> Some (sign @ i @ f @ e, s4))))"

text \<open>
  Values, array elements and object members. The first argument bounds the depth of the
  calls, and \<open>JSON_parse\<close> passes more than a text of its length can use (lemma
  \<open>JSON_parse_fuel\<close> below); a repeated key of an object keeps its first position and its
  last value, as \<open>JSON.parse\<close> does.
\<close>

fun parse_value :: "nat \<Rightarrow> jstring \<Rightarrow> (json \<times> jstring) option"
  and parse_elems :: "nat \<Rightarrow> jstring \<Rightarrow> (json list \<times> jstring) option"
  and parse_members ::
    "nat \<Rightarrow> (jstring \<times> json) list \<Rightarrow> jstring \<Rightarrow> ((jstring \<times> json) list \<times> jstring) option"
where
  "parse_value 0 s = None"
| "parse_value (Suc n) s =
     (case skip_ws s of
        [] \<Rightarrow> None
      | c # cs \<Rightarrow>
          if c = cu CHR ''{'' then
            (case skip_ws cs of
               [] \<Rightarrow> None
             | d # ds \<Rightarrow>
                 if d = cu CHR ''}'' then Some (JObj [], ds)
                 else (case parse_members n [] cs of
                         None \<Rightarrow> None
                       | Some (kvs, r) \<Rightarrow> Some (JObj kvs, r)))
          else if c = cu CHR ''['' then
            (case skip_ws cs of
               [] \<Rightarrow> None
             | d # ds \<Rightarrow>
                 if d = cu CHR '']'' then Some (JArr [], ds)
                 else (case parse_elems n cs of
                         None \<Rightarrow> None
                       | Some (vs, r) \<Rightarrow> Some (JArr vs, r)))
          else if c = 0x22 then
            (case parse_chars cs of None \<Rightarrow> None | Some (str, r) \<Rightarrow> Some (JStr str, r))
          else if startsWith (c # cs) (lit ''true'') then Some (JBool True, drop 4 (c # cs))
          else if startsWith (c # cs) (lit ''false'') then Some (JBool False, drop 5 (c # cs))
          else if startsWith (c # cs) (lit ''null'') then Some (JNull, drop 4 (c # cs))
          else (case parse_number (c # cs) of None \<Rightarrow> None | Some (l, r) \<Rightarrow> Some (JNum l, r)))"
| "parse_elems 0 s = None"
| "parse_elems (Suc n) s =
     (case parse_value n s of
        None \<Rightarrow> None
      | Some (v, r) \<Rightarrow>
          (case skip_ws r of
             [] \<Rightarrow> None
           | c # cs \<Rightarrow>
               if c = cu CHR '','' then cons_fst v (parse_elems n cs)
               else if c = cu CHR '']'' then Some ([v], cs)
               else None))"
| "parse_members 0 acc s = None"
| "parse_members (Suc n) acc s =
     (case skip_ws s of
        [] \<Rightarrow> None
      | q # s1 \<Rightarrow>
          if q \<noteq> 0x22 then None
          else
            (case parse_chars s1 of
               None \<Rightarrow> None
             | Some (k, s2) \<Rightarrow>
                 (case skip_ws s2 of
                    [] \<Rightarrow> None
                  | colon # s3 \<Rightarrow>
                      if colon \<noteq> cu CHR '':'' then None
                      else
                        (case parse_value n s3 of
                           None \<Rightarrow> None
                         | Some (v, s4) \<Rightarrow>
                             (case skip_ws s4 of
                                [] \<Rightarrow> None
                              | c # cs \<Rightarrow>
                                  if c = cu CHR '','' then parse_members n (AList.update k v acc) cs
                                  else if c = cu CHR ''}'' then Some (AList.update k v acc, cs)
                                  else None)))))"

definition JSON_parse :: "jstring \<Rightarrow> json option" where
  "JSON_parse s =
     (case parse_value (2 * length s + 2) s of
        None \<Rightarrow> None
      | Some (v, r) \<Rightarrow> if skip_ws r = [] then Some v else None)"

subsection \<open>\<open>JSON.stringify\<close> on an array of strings\<close>









subsection \<open>Objects: own keys, property reads and writes\<close>

text \<open>
  An object is the association list of its own properties, one entry per key, in creation
  order. \<open>Object.keys\<close> lists the keys that are array indices first, in ascending order,
  then the other keys in creation order; an array has its indices as keys.
\<close>

fun decimal :: "nat \<Rightarrow> jstring" where
  "decimal n =
     (if n < 10 then [cu CHR ''0'' + n] else decimal (n div 10) @ [cu CHR ''0'' + n mod 10])"

definition dec_value :: "jstring \<Rightarrow> int" where
  "dec_value k = foldl (\<lambda>a c. 10 * a + (int c - int (cu CHR ''0''))) 0 k"

definition is_array_index :: "jstring \<Rightarrow> bool" where
  "is_array_index k =
     (k \<noteq> [] \<and> list_all is_digit k \<and> (k = lit ''0'' \<or> hd k \<noteq> cu CHR ''0'')
      \<and> dec_value k < 4294967295)"

definition own_entries :: "json \<Rightarrow> (jstring \<times> json) list" where
  "own_entries v =
     (case v of
        JObj kvs \<Rightarrow>
          sort_key (\<lambda>kv. dec_value (fst kv)) (filter (\<lambda>kv. is_array_index (fst kv)) kvs)
          @ filter (\<lambda>kv. \<not> is_array_index (fst kv)) kvs
      | JArr vs \<Rightarrow> map (\<lambda>i. (decimal i, vs ! i)) [0 ..< length vs]
      | JStr s \<Rightarrow> map (\<lambda>i. (decimal i, JStr [s ! i])) [0 ..< length s]
      | _ \<Rightarrow> [])"

text \<open>\<open>Object.keys(v)\<close>; \<open>None\<close> is the \<open>TypeError\<close> thrown for \<open>null\<close>.\<close>

definition Object_keys :: "json \<Rightarrow> jstring list option" where
  "Object_keys v = (if v = JNull then None else Some (map fst (own_entries v)))"

text \<open>
  \<open>v[k]\<close> for a key that no prototype defines (the code reads the keys \<open>Object.keys\<close>
  gave it, and \<open>command\<close>, \<open>args\<close>, \<open>env\<close>): the own property, or \<open>undefined\<close>.
\<close>

definition js_get :: "json \<Rightarrow> jstring \<Rightarrow> json option" where
  "js_get v k = map_of (own_entries v) k"

text \<open>
  A plain object \<open>{}\<close> that the code fills with strings (\<open>env\<close>) still inherits from
  \<open>Object.prototype\<close>. Reading \<open>env[k]\<close> for a key it does not own finds the inherited
  member when \<open>k\<close> is one of the names below (a function or an object: truthy); assigning
  \<open>env['__proto__'] = s\<close> with a string \<open>s\<close> runs the inherited setter, which ignores it.
\<close>

type_synonym env = "(jstring \<times> jstring) list"

definition object_prototype_names :: "jstring list" where
  "object_prototype_names =
     map lit
       [''constructor'', ''__defineGetter__'', ''__defineSetter__'', ''hasOwnProperty'',
        ''__lookupGetter__'', ''__lookupSetter__'', ''isPrototypeOf'', ''propertyIsEnumerable'',
        ''toString'', ''valueOf'', ''__proto__'', ''toLocaleString'']"

text \<open>Whether \<open>env[k]\<close> is truthy.\<close>

definition prop_truthy :: "env \<Rightarrow> jstring \<Rightarrow> bool" where
  "prop_truthy env k =
     (case map_of env k of Some v \<Rightarrow> v \<noteq> [] | None \<Rightarrow> k \<in> set object_prototype_names)"

text \<open>The assignment \<open>env[k] = v\<close>.\<close>

definition prop_set :: "env \<Rightarrow> jstring \<Rightarrow> jstring \<Rightarrow> env" where
  "prop_set env k v = (if k = lit ''__proto__'' then env else AList.update k v env)"

section \<open>The stdio client (\<open>MCPClient\<close> of the unnamed client file, \<open>part_003\<close>)\<close>

subsection \<open>Argument parsing (constructor, lines 111--131)\<close>

text \<open>
  \<open>config.args\<close> is \<open>any\<close>. An array is mapped through \<open>String\<close>; a string is first given
  to \<open>JSON.parse\<close>, and when that throws or yields something that is not an array the
  string is split at the space character and the empty pieces are dropped
  (\<open>split(' ').filter(Boolean)\<close>); anything else leaves \<open>parsedArgs\<close> empty.
\<close>

definition parsedArgs :: "(jstring \<Rightarrow> jstring) \<Rightarrow> json option \<Rightarrow> jstring list" where
  "parsedArgs numstr args =
     (case args of
        Some (JArr vs) \<Rightarrow> map (js_String numstr) vs
      | Some (JStr s) \<Rightarrow>
          (case JSON_parse s of
             Some (JArr vs) \<Rightarrow> map (js_String numstr) vs
           | _ \<Rightarrow> filter (\<lambda>t. t \<noteq> []) (split 0x20 s))
      | _ \<Rightarrow> [])"

subsection \<open>Environment parsing (constructor, lines 70--107)\<close>

text \<open>
  \<open>config.environments\<close> is \<open>any\<close>: an object (or array) is taken as it is, a non-empty
  string is given to \<open>JSON.parse\<close> (a failure leaves \<open>parsedEnv\<close> at \<open>null\<close>), and every other
  value leaves it at \<open>null\<close>. When \<open>parsedEnv\<close> is an object, each of its keys is copied
  with its value converted by \<open>String\<close>.
\<close>

definition parsedEnv :: "json option \<Rightarrow> json" where
  "parsedEnv environments =
     (case environments of
        Some (JObj kvs) \<Rightarrow> JObj kvs
      | Some (JArr vs) \<Rightarrow> JArr vs
      | Some (JStr s) \<Rightarrow>
          (if s = [] then JNull else (case JSON_parse s of None \<Rightarrow> JNull | Some v \<Rightarrow> v))
      | _ \<Rightarrow> JNull)"

definition is_object :: "json \<Rightarrow> bool" where
  "is_object v = (case v of JObj kvs \<Rightarrow> True | JArr vs \<Rightarrow> True | _ \<Rightarrow> False)"

definition config_env :: "(jstring \<Rightarrow> jstring) \<Rightarrow> json option \<Rightarrow> env" where
  "config_env numstr environments =
     (let p = parsedEnv environments
      in if is_object p
         then fold (\<lambda>kv env. prop_set env (fst kv) (js_String numstr (snd kv))) (own_entries p) []
         else [])"

text \<open>
  The loop over \<open>process.env\<close> (lines 98--107): a variable whose name starts with \<open>MCP_\<close>
  and whose value is not empty is added under the name without the prefix, unless
  \<open>env[envName]\<close> is already truthy.
\<close>

definition merge_mcp :: "(jstring \<times> jstring) list \<Rightarrow> jstring \<Rightarrow> env \<Rightarrow> env" where
  "merge_mcp penv key env =
     (case map_of penv key of
        None \<Rightarrow> env
      | Some v \<Rightarrow>
          if startsWith key (lit ''MCP_'') \<and> v \<noteq> [] then
            (let envName = drop 4 key
             in if \<not> prop_truthy env envName then prop_set env envName v else env)
          else env)"

definition stdio_env :: "(jstring \<Rightarrow> jstring) \<Rightarrow> json option \<Rightarrow> (jstring \<times> jstring) list \<Rightarrow> env" where
  "stdio_env numstr environments penv =
     fold (merge_mcp penv) (map fst penv) (config_env numstr environments)"

section \<open>Errors, the logger and the outside world\<close>

text \<open>
  A thrown value is an error of one of four kinds with its message: the plain \<open>Error\<close>,
  the host's user-facing \<open>sdk.RuntimeError\<close>, and the engine's \<open>SyntaxError\<close> and
  \<open>TypeError\<close>. A function that can throw returns \<open>js_error + 'a\<close>, with \<open>Inl\<close> the thrown
  error. The text of a message the engine writes itself is a parameter: the message of
  the \<open>SyntaxError\<close> of \<open>JSON.parse\<close> for a text, of the \<open>TypeError\<close> of \<open>Object.keys(null)\<close>,
  and of the \<open>TypeError\<close> of reading a named property of \<open>undefined\<close>.
\<close>

datatype js_error =
    Error jstring
  | RuntimeError jstring
  | SyntaxError jstring
  | TypeError jstring

fun message :: "js_error \<Rightarrow> jstring" where
  "message (Error m) = m"
| "message (RuntimeError m) = m"
| "message (SyntaxError m) = m"
| "message (TypeError m) = m"


record engine =
  num_to_string :: "jstring \<Rightarrow> jstring"
  num_is_zero :: "jstring \<Rightarrow> bool"
  syntax_error_message :: "jstring \<Rightarrow> jstring"
  null_keys_message :: jstring
  undefined_read_message :: "jstring \<Rightarrow> jstring"

text \<open>\<open>JSON.parse(s)\<close> with its exception.\<close>

definition JSON_parse_throw :: "engine \<Rightarrow> jstring \<Rightarrow> js_error + json" where
  "JSON_parse_throw E s =
     (case JSON_parse s of
        None \<Rightarrow> Inl (SyntaxError (syntax_error_message E s))
      | Some v \<Rightarrow> Inr v)"

text \<open>A template literal prints \<open>undefined\<close> for a missing value.\<close>

definition show_opt :: "jstring option \<Rightarrow> jstring" where
  "show_opt x = (case x of None \<Rightarrow> lit ''undefined'' | Some s \<Rightarrow> s)"

text \<open>
  The trace of what a function does to the outside: the logger's \<open>warn\<close> and \<open>error\<close>
  calls with their text (the \<open>debug\<close> and \<open>info\<close> calls are left out: no result depends
  on them), the registry's HTTP requests, the transports built, the timers set, and the
  calls into the protocol SDK's client. A function returns the events it caused, in order.
\<close>

datatype event =
    Warn jstring
  | LogError jstring
  | HttpGetServer jstring
  | HttpListServers jstring
  | NewWebSocketTransport jstring
  | SetTimeout nat
  | ClientConnect
  | ClientDisconnect
  | TransportClose

section \<open>The stdio client, continued: construction, connection, teardown\<close>

record client_config =
  cfg_connectionType :: jstring
  cfg_command :: "json option"
  cfg_args :: "json option"
  cfg_environments :: "json option"
  cfg_sseUrl :: "jstring option"
  cfg_messagesPostEndpoint :: "jstring option"
  cfg_headers :: "jstring option"

datatype transport =
    StdioTransport json "jstring list" env
  | SSETransport jstring env "jstring option"

text \<open>
  \<open>s.trim()\<close> removes the white space and the line terminators of the language at both
  ends.
\<close>

definition is_trim_space :: "code_unit \<Rightarrow> bool" where
  "is_trim_space c =
     (c \<in> set [0x09, 0x0A, 0x0B, 0x0C, 0x0D, 0x20, 0xA0, 0x1680, 0x2028, 0x2029, 0x202F,
                0x205F, 0x3000, 0xFEFF]
      \<or> (0x2000 \<le> c \<and> c \<le> 0x200A))"

definition trim :: "jstring \<Rightarrow> jstring" where
  "trim s = rev (dropWhile is_trim_space (rev (dropWhile is_trim_space s)))"

text \<open>
  The header block (lines 39--48): one header per line, \<open>line.split(':', 2)\<close> keeps the
  first two pieces, and a line is used when both are non-empty.
\<close>

definition header_step :: "jstring \<Rightarrow> env \<Rightarrow> env" where
  "header_step line hs =
     (case split (cu CHR '':'') line of
        name # v # rest \<Rightarrow> if name \<noteq> [] \<and> v \<noteq> [] then prop_set hs (trim name) (trim v) else hs
      | _ \<Rightarrow> hs)"

definition parse_headers :: "jstring option \<Rightarrow> env" where
  "parse_headers h =
     (case h of
        None \<Rightarrow> []
      | Some t \<Rightarrow> if t = [] then [] else fold header_step (split 0x0A t) [])"

text \<open>
  What the client cannot decide is taken from the outside: whether building the
  transport object throws (\<open>new URL\<close>, \<open>new StdioClientTransport\<close>), what the SDK client's
  \<open>connect\<close> and its requests do on a transport, the two texts the \<open>ENOENT\<close> message
  quotes (the transport's \<open>options?.command\<close> and the result of \<open>getCommandInfo\<close>), and
  what the transport's \<open>close\<close> does, if it has one, and the name in the \<open>info\<close> member of
  the SDK's client object as a template literal prints it, or \<open>None\<close> when the object has
  no \<open>info\<close> member (the client's \<open>disconnect\<close> reads \<open>this.client.info.name\<close>).

  The result of a request is typed as the protocol SDK types it: a listing may lack its
  list (\<open>None\<close>), a tool has an optional description; the code also guards against a
  missing name and a missing input schema.
\<close>

datatype close_outcome = NoCloseMethod | CloseReturns | CloseThrows jstring

record raw_tool =
  tool_name :: "jstring option"
  tool_description :: "jstring option"
  tool_inputSchema :: "json option"

record 'c server =
  srv_listResources :: "'c \<Rightarrow> js_error + json list option"
  srv_readResource :: "'c \<Rightarrow> jstring \<Rightarrow> js_error + json"
  srv_listTools :: "'c \<Rightarrow> js_error + raw_tool list option"
  srv_callTool :: "'c \<Rightarrow> jstring \<Rightarrow> json \<Rightarrow> js_error + json"
  srv_listPrompts :: "'c \<Rightarrow> js_error + json list option"
  srv_getPrompt :: "'c \<Rightarrow> jstring \<Rightarrow> js_error + json"

record stdio_world =
  new_transport :: "transport \<Rightarrow> js_error option"
  sdk_connect :: "transport \<Rightarrow> js_error option"
  command_attempted :: "transport \<Rightarrow> jstring"
  command_info :: jstring
  transport_close :: "transport \<Rightarrow> close_outcome"
  client_info_name :: "jstring option"
  stdio_server :: "transport server"

record stdio_client =
  sc_transport :: transport
  sc_has_logger :: bool

text \<open>The constructor (lines 18--207): the transport for the connection type.\<close>

definition new_MCPClient ::
  "engine \<Rightarrow> stdio_world \<Rightarrow> (jstring \<times> jstring) list \<Rightarrow> client_config \<Rightarrow> bool
     \<Rightarrow> js_error + stdio_client" where
  "new_MCPClient E W penv config has_logger =
     (if cfg_connectionType config = lit ''sse'' then
        (case cfg_sseUrl config of
           None \<Rightarrow> Inl (Error (lit ''SSE URL is required for SSE connection type''))
         | Some url \<Rightarrow>
             if url = [] then Inl (Error (lit ''SSE URL is required for SSE connection type''))
             else
               (let t = SSETransport url (parse_headers (cfg_headers config))
                          (case cfg_messagesPostEndpoint config of
                             None \<Rightarrow> None
                           | Some e \<Rightarrow> if e = [] then None else Some e)
                in case new_transport W t of
                     Some err \<Rightarrow> Inl err
                   | None \<Rightarrow> Inr \<lparr>sc_transport = t, sc_has_logger = has_logger\<rparr>))
      else
        (case cfg_command config of
           None \<Rightarrow> Inl (RuntimeError (lit ''Command is required for STDIO connection type''))
         | Some cmd \<Rightarrow>
             if \<not> truthy (num_is_zero E) cmd
             then Inl (RuntimeError (lit ''Command is required for STDIO connection type''))
             else
               (let t = StdioTransport cmd
                          (parsedArgs (num_to_string E) (cfg_args config))
                          (stdio_env (num_to_string E) (cfg_environments config) penv)
                in case new_transport W t of
                     Some err \<Rightarrow>
                       if str_includes (message err) (lit ''ENOENT'')
                       then Inl (Error (lit ''Failed to create STDIO transport: Command '' @ [0x22]
                                   @ js_String (num_to_string E) cmd @ [0x22]
                                   @ lit '' not found. Ensure it'' @ [0x27]
                                   @ lit ''s available in the execution environment'' @ [0x27]
                                   @ lit ''s PATH.''))
                       else Inl (Error (lit ''Failed to create STDIO transport: '' @ message err))
                   | None \<Rightarrow> Inr \<lparr>sc_transport = t, sc_has_logger = has_logger\<rparr>)))"

text \<open>
  \<open>connect\<close> (lines 237--279): every failure of the SDK's \<open>connect\<close> is rethrown as a
  \<open>RuntimeError\<close> whose text depends on what the message contains.
\<close>

definition logger_call :: "bool \<Rightarrow> event \<Rightarrow> event list" where
  "logger_call has_logger e = (if has_logger then [e] else [])"

definition stdio_connect :: "stdio_world \<Rightarrow> stdio_client \<Rightarrow> (js_error + unit) \<times> event list" where
  "stdio_connect W c =
     (case sdk_connect W (sc_transport c) of
        None \<Rightarrow> (Inr (), [ClientConnect])
      | Some err \<Rightarrow>
          (let errorMessage = message err;
               tr = ClientConnect # logger_call (sc_has_logger c)
                      (LogError (lit ''Connection failed for client : '' @ errorMessage))
           in if str_includes errorMessage (lit ''ENOENT'') then
                (Inl (RuntimeError (lit ''Connection failed: Command '' @ [0x27]
                   @ command_attempted W (sc_transport c) @ [0x27]
                   @ lit '' not found. Make sure the command exists and is accessible within the integration environment''
                   @ [0x27] @ lit ''s PATH. '' @ command_info W)), tr)
              else if str_includes errorMessage (lit ''closed'') \<or> str_includes errorMessage (lit ''exit code'') then
                (Inl (RuntimeError (lit ''MCP server connection failed or closed unexpectedly. This might be due to: ''
                   @ lit ''1. Incorrect configuration (e.g., invalid token in ENV). ''
                   @ lit ''2. The server package crashing on startup. ''
                   @ lit ''3. Compatibility issues between the client and server package versions. ''
                   @ lit ''Original error: '' @ errorMessage)), tr)
              else (Inl (RuntimeError (lit ''Failed to connect to MCP server: '' @ errorMessage)), tr)))"

text \<open>
  \<open>disconnect\<close> (lines 355--372). With a logger, the first line prints
  \<open>this.client.info.name\<close> before the \<open>try\<close> block: when the SDK's client has no \<open>info\<close>
  member this read throws a \<open>TypeError\<close>, which leaves \<open>disconnect\<close> with nothing closed.
  Otherwise the transport is closed when it has a \<open>close\<close> function; an exception that
  \<open>close\<close> throws when it is called is caught and written as a warning (the text stands
  for the thrown value as the template literal prints it), and nothing is thrown. The
  call of \<open>close\<close> is not awaited, so a promise it returns is dropped.
\<close>

definition stdio_disconnect ::
  "engine \<Rightarrow> stdio_world \<Rightarrow> stdio_client \<Rightarrow> (js_error + unit) \<times> event list" where
  "stdio_disconnect E W c =
     (if sc_has_logger c \<and> client_info_name W = None
      then (Inl (TypeError (undefined_read_message E (lit ''name''))), [])
      else
        (case transport_close W (sc_transport c) of
           NoCloseMethod \<Rightarrow> (Inr (), [])
         | CloseReturns \<Rightarrow> (Inr (), [TransportClose])
         | CloseThrows txt \<Rightarrow>
             (Inr (), TransportClose # logger_call (sc_has_logger c)
                        (Warn (lit ''Error during explicit transport close: '' @ txt)))))"

section \<open>The per-call integration (\<open>index2.ts\<close>)\<close>

text \<open>
  \<open>parseConfiguration\<close> (lines 200--231): the configuration text is parsed, its first
  key names the connection, and the connection must have a truthy \<open>command\<close>. Every
  failure inside, the engine's own exceptions included, leaves as a \<open>RuntimeError\<close>.
  A missing text is printed as \<open>undefined\<close> before it is parsed.
\<close>

definition parseConfiguration :: "engine \<Rightarrow> jstring option \<Rightarrow> js_error + client_config" where
  "parseConfiguration E configuration =
     (case JSON_parse_throw E (show_opt configuration) of
        Inl e \<Rightarrow> Inl (RuntimeError (lit ''Failed to parse MCP configuration: '' @ message e))
      | Inr configObj \<Rightarrow>
          (case Object_keys configObj of
             None \<Rightarrow> Inl (RuntimeError (lit ''Failed to parse MCP configuration: '' @ null_keys_message E))
           | Some keys \<Rightarrow>
               (let mcpType = (case keys of [] \<Rightarrow> None | k # ks \<Rightarrow> Some k);
                    connectionConfig = (case mcpType of None \<Rightarrow> None | Some k \<Rightarrow> js_get configObj k);
                    no_config = Inl (RuntimeError
                      (lit ''Invalid MCP configuration: missing connection config for type '' @ show_opt mcpType));
                    no_command = Inl (RuntimeError
                      (lit ''Invalid MCP configuration: missing command for type '' @ show_opt mcpType))
                in case connectionConfig of
                     None \<Rightarrow> no_config
                   | Some cc \<Rightarrow>
                       if \<not> truthy (num_is_zero E) cc then no_config
                       else
                         (case js_get cc (lit ''command'') of
                            None \<Rightarrow> no_command
                          | Some cmd \<Rightarrow>
                              if \<not> truthy (num_is_zero E) cmd then no_command
                              else Inr \<lparr>cfg_connectionType = lit ''stdio'',
                                        cfg_command = Some cmd,
                                        cfg_args = js_get cc (lit ''args''),
                                        cfg_environments = js_get cc (lit ''env''),
                                        cfg_sseUrl = None,
                                        cfg_messagesPostEndpoint = None,
                                        cfg_headers = None\<rparr>))))"

text \<open>
  Every action builds a client from the parsed configuration, then runs
  \<open>try { connect; request } finally { disconnect }\<close>: there is no \<open>catch\<close>, so what the
  \<open>try\<close> block throws is what the action throws, after the disconnect, unless the
  disconnect itself throws: then the action throws that, whatever the \<open>try\<close> block did.
  The host's logger is always passed to the client.
\<close>

definition with_client ::
  "engine \<Rightarrow> stdio_world \<Rightarrow> (jstring \<times> jstring) list \<Rightarrow> jstring option
     \<Rightarrow> (transport \<Rightarrow> js_error + 'a) \<Rightarrow> (js_error + 'a) \<times> event list" where
  "with_client E W penv configuration request =
     (case parseConfiguration E configuration of
        Inl e \<Rightarrow> (Inl e, [])
      | Inr cfg \<Rightarrow>
          (case new_MCPClient E W penv cfg True of
             Inl e \<Rightarrow> (Inl e, [])
           | Inr c \<Rightarrow>
               (let (r, t1) =
                      (case stdio_connect W c of
                         (Inl e, t) \<Rightarrow> (Inl e, t)
                       | (Inr u, t) \<Rightarrow> (request (sc_transport c), t))
                in case stdio_disconnect E W c of
                     (Inl e, t2) \<Rightarrow> (Inl e, t1 @ t2)
                   | (Inr u, t2) \<Rightarrow> (r, t1 @ t2))))"


text \<open>
  \<open>listTools\<close> (lines 61--87): each tool becomes its name, its description or, when the
  description is missing or empty, the default text around the name, and the list of the
  keys of its input schema's \<open>properties\<close>. \<open>listTools2_request\<close> is the body of the \<open>try\<close>
  block after the connection: the request and the projection of its result.
\<close>

record tool2 =
  t2_name :: "jstring option"
  t2_description :: jstring
  t2_schema :: "jstring list"

definition project2 :: "engine \<Rightarrow> raw_tool \<Rightarrow> tool2" where
  "project2 E tool =
     \<lparr>t2_name = tool_name tool,
      t2_description =
        (case tool_description tool of
           None \<Rightarrow> lit ''Execute the '' @ show_opt (tool_name tool) @ lit '' tool''
         | Some d \<Rightarrow> if d = [] then lit ''Execute the '' @ show_opt (tool_name tool) @ lit '' tool'' else d),
      t2_schema =
        (case tool_inputSchema tool of
           None \<Rightarrow> []
         | Some sch \<Rightarrow>
             (case js_get sch (lit ''properties'') of
                None \<Rightarrow> []
              | Some props \<Rightarrow>
                  if truthy (num_is_zero E) props then map fst (own_entries props) else []))\<rparr>"

definition listTools2_request :: "engine \<Rightarrow> stdio_world \<Rightarrow> transport \<Rightarrow> js_error + tool2 list" where
  "listTools2_request E W t =
     (case srv_listTools (stdio_server W) t of
        Inl e \<Rightarrow> Inl e
      | Inr rawTools \<Rightarrow>
          Inr (map (project2 E) (case rawTools of None \<Rightarrow> [] | Some ts \<Rightarrow> ts)))"

definition listTools2 ::
  "engine \<Rightarrow> stdio_world \<Rightarrow> (jstring \<times> jstring) list \<Rightarrow> jstring option
     \<Rightarrow> (js_error + tool2 list) \<times> event list" where
  "listTools2 E W penv configuration =
     with_client E W penv configuration (listTools2_request E W)"

section \<open>The cached-client integration (\<open>index.ts\<close>)\<close>

text \<open>
  The configuration lists server entries; the fields of an entry are strings that may be
  missing. A missing or empty string is falsy.
\<close>

record server_entry =
  se_internalName :: "jstring option"
  se_smitheryQualifiedName :: "jstring option"
  se_smitheryServerConfigJson :: "jstring option"
  se_smitheryApiKey :: "jstring option"

definition falsy :: "jstring option \<Rightarrow> bool" where
  "falsy x = (case x of None \<Rightarrow> True | Some s \<Rightarrow> s = [])"

record server_cfg =
  sv_internalName :: jstring
  sv_qualifiedName :: jstring
  sv_serverConfigJson :: jstring

text \<open>
  \<open>servers.map(...)\<close> of \<open>register\<close> (lines 30--39): the entries in order, stopping with
  a \<open>RuntimeError\<close> at the first one without an internal or a qualified name.
\<close>

fun serverConfigs :: "server_entry list \<Rightarrow> js_error + server_cfg list" where
  "serverConfigs [] = Inr []"
| "serverConfigs (server # rest) =
     (case (se_internalName server, se_smitheryQualifiedName server) of
        (Some internalName, Some qualifiedName) \<Rightarrow>
          if internalName = [] \<or> qualifiedName = []
          then Inl (RuntimeError (lit ''Both internalName and qualifiedName are required for each server configuration.''))
          else
            (case serverConfigs rest of
               Inl e \<Rightarrow> Inl e
             | Inr cs \<Rightarrow>
                 Inr (\<lparr>sv_internalName = internalName,
                       sv_qualifiedName = qualifiedName,
                       sv_serverConfigJson =
                         (if falsy (se_smitheryServerConfigJson server) then lit ''{}''
                          else show_opt (se_smitheryServerConfigJson server))\<rparr> # cs))
      | _ \<Rightarrow> Inl (RuntimeError (lit ''Both internalName and qualifiedName are required for each server configuration.'')))"

text \<open>
  A client of the protocol SDK, as the cache holds it: its name, the URL of its
  WebSocket transport and the configuration given to \<open>createSmitheryUrl\<close> (a pure
  function of the Smithery SDK: the model keeps its arguments). What \<open>connect\<close> and the
  requests do on a client comes from the outside.
\<close>

record sdk_client =
  cl_name :: jstring
  cl_url :: jstring
  cl_config :: json

record ws_world =
  ws_connect :: "sdk_client \<Rightarrow> js_error option"
  ws_server :: "sdk_client server"

type_synonym cache = "(jstring \<times> sdk_client) list"

text \<open>
  The loop of \<open>register\<close> (lines 65--94): each server is connected and stored in the
  cache, then its tools are listed; any exception in the body is logged and rethrown as a
  \<open>RuntimeError\<close>, which ends the loop.
\<close>

definition transport_failed :: "jstring \<Rightarrow> js_error \<Rightarrow> jstring" where
  "transport_failed internalName e =
     lit ''Failed to create transport for server '' @ internalName @ lit '': '' @ message e"

fun connect_servers ::
  "engine \<Rightarrow> ws_world \<Rightarrow> server_cfg list \<Rightarrow> cache \<Rightarrow> (js_error + unit) \<times> cache \<times> event list" where
  "connect_servers E W [] cache = (Inr (), cache, [])"
| "connect_servers E W (server # rest) cache =
     (let name = sv_internalName server;
          url = lit ''wss://server.smithery.ai/'' @ sv_qualifiedName server @ lit ''/ws''
      in case JSON_parse_throw E (sv_serverConfigJson server) of
           Inl e \<Rightarrow>
             (Inl (RuntimeError (transport_failed name e)), cache, [LogError (transport_failed name e)])
         | Inr cfg \<Rightarrow>
             (let client = \<lparr>cl_name = name @ lit ''-client'', cl_url = url, cl_config = cfg\<rparr>
              in case ws_connect W client of
                   Some e \<Rightarrow>
                     (Inl (RuntimeError (transport_failed name e)), cache,
                      [NewWebSocketTransport url, ClientConnect, LogError (transport_failed name e)])
                 | None \<Rightarrow>
                     (let cache1 = AList.update name client cache
                      in case srv_listTools (ws_server W) client of
                           Inl e \<Rightarrow>
                             (Inl (RuntimeError (transport_failed name e)), cache1,
                              [NewWebSocketTransport url, ClientConnect, LogError (transport_failed name e)])
                         | Inr tools \<Rightarrow>
                             (case connect_servers E W rest cache1 of
                                (r, cache2, tr) \<Rightarrow>
                                  (r, cache2, NewWebSocketTransport url # ClientConnect # tr)))))"

text \<open>
  \<open>register\<close> (lines 19--95). \<open>configuration?.servers || []\<close>: a missing list is the
  empty list, and an empty list is refused.
\<close>

definition register ::
  "engine \<Rightarrow> ws_world \<Rightarrow> server_entry list option \<Rightarrow> cache \<Rightarrow> (js_error + unit) \<times> cache \<times> event list" where
  "register E W config_servers cache =
     (let servers = (case config_servers of None \<Rightarrow> [] | Some ss \<Rightarrow> ss)
      in if length servers = 0
         then (Inl (RuntimeError (lit ''At least one MCP server configuration is required.'')), cache, [])
         else
           (case serverConfigs servers of
              Inl e \<Rightarrow> (Inl e, cache, [])
            | Inr cs \<Rightarrow> connect_servers E W cs cache))"

text \<open>
  The actions (lines 98--193). Each reads the cache with \<open>clientCache.get\<close> and calls the
  request through \<open>?.\<close>: on a missing client the call is \<open>undefined\<close> and nothing is
  requested. An exception of the request is logged and rethrown as a \<open>RuntimeError\<close>.
  \<open>executeTool\<close> parses its parameters before the \<open>try\<close> block.
\<close>

definition rethrow :: "jstring \<Rightarrow> jstring \<Rightarrow> js_error \<Rightarrow> (js_error + 'a) \<times> event list" where
  "rethrow log_text user_text e =
     (Inl (RuntimeError (user_text @ lit '': '' @ message e)), [LogError (log_text @ lit '': '' @ message e)])"

definition listResources :: "ws_world \<Rightarrow> cache \<Rightarrow> jstring \<Rightarrow> (js_error + json list) \<times> event list" where
  "listResources W cache internalName =
     (case map_of cache internalName of
        None \<Rightarrow> (Inr [], [])
      | Some mcpClient \<Rightarrow>
          (case srv_listResources (ws_server W) mcpClient of
             Inl e \<Rightarrow>
               rethrow (lit ''Action listResources failed for '' @ internalName)
                       (lit ''Failed to list resources from '' @ internalName) e
           | Inr resourcesResult \<Rightarrow>
               (Inr (case resourcesResult of None \<Rightarrow> [] | Some rs \<Rightarrow> rs), [])))"

definition readResource ::
  "ws_world \<Rightarrow> cache \<Rightarrow> jstring \<Rightarrow> jstring \<Rightarrow> (js_error + json option) \<times> event list" where
  "readResource W cache internalName uri =
     (case map_of cache internalName of
        None \<Rightarrow> (Inr None, [])
      | Some mcpClient \<Rightarrow>
          (case srv_readResource (ws_server W) mcpClient uri of
             Inl e \<Rightarrow>
               rethrow (lit ''Action readResource failed for '' @ internalName @ lit '' (URI: '' @ uri @ lit '')'')
                       (lit ''Failed to read resource '' @ uri @ lit '' from '' @ internalName) e
           | Inr resourceResult \<Rightarrow> (Inr (Some resourceResult), [])))"

record tool_out =
  out_name :: jstring
  out_description :: jstring
  out_schema :: "json option"

text \<open>The projection of a tool (lines 138--142, and the same lines of the other
  cached variants): \<open>??\<close> replaces a missing value, \<open>||\<close> a missing or empty one.\<close>

definition project :: "raw_tool \<Rightarrow> tool_out" where
  "project tool =
     \<lparr>out_name = (case tool_name tool of None \<Rightarrow> lit ''Unnamed Tool'' | Some n \<Rightarrow> n),
      out_description =
        (if falsy (tool_description tool)
         then lit ''Execute the '' @ (case tool_name tool of None \<Rightarrow> lit ''?'' | Some n \<Rightarrow> n) @ lit '' tool''
         else show_opt (tool_description tool)),
      out_schema = (case tool_inputSchema tool of Some JNull \<Rightarrow> None | s \<Rightarrow> s)\<rparr>"

definition listTools :: "ws_world \<Rightarrow> cache \<Rightarrow> jstring \<Rightarrow> (js_error + tool_out list) \<times> event list" where
  "listTools W cache internalName =
     (case map_of cache internalName of
        None \<Rightarrow> (Inr [], [])
      | Some mcpClient \<Rightarrow>
          (case srv_listTools (ws_server W) mcpClient of
             Inl e \<Rightarrow>
               rethrow (lit ''Action listTools failed for '' @ internalName)
                       (lit ''Failed to list tools from '' @ internalName) e
           | Inr rawToolsResult \<Rightarrow>
               (Inr (map project (case rawToolsResult of None \<Rightarrow> [] | Some ts \<Rightarrow> ts)), [])))"

definition executeTool ::
  "engine \<Rightarrow> ws_world \<Rightarrow> cache \<Rightarrow> jstring \<Rightarrow> jstring \<Rightarrow> jstring option
     \<Rightarrow> (js_error + json option) \<times> event list" where
  "executeTool E W cache internalName toolName stringParameters =
     (case (if falsy stringParameters then Inr (JObj [])
            else JSON_parse_throw E (show_opt stringParameters)) of
        Inl e \<Rightarrow> (Inl e, [])
      | Inr parameters \<Rightarrow>
          (case map_of cache internalName of
             None \<Rightarrow> (Inr None, [])
           | Some mcpClient \<Rightarrow>
               (case srv_callTool (ws_server W) mcpClient toolName
                       (if parameters = JNull then JObj [] else parameters) of
                  Inl e \<Rightarrow>
                    rethrow (lit ''Action executeTool failed for '' @ internalName @ lit '' (Tool: '' @ toolName @ lit '')'')
                            (lit ''Failed to execute tool '' @ [0x22] @ toolName @ [0x22] @ lit '' on '' @ internalName) e
                | Inr result \<Rightarrow> (Inr (Some result), []))))"

definition listPrompts :: "ws_world \<Rightarrow> cache \<Rightarrow> jstring \<Rightarrow> (js_error + json list) \<times> event list" where
  "listPrompts W cache internalName =
     (case map_of cache internalName of
        None \<Rightarrow> (Inr [], [])
      | Some mcpClient \<Rightarrow>
          (case srv_listPrompts (ws_server W) mcpClient of
             Inl e \<Rightarrow>
               rethrow (lit ''Action listPrompts failed for '' @ internalName)
                       (lit ''Failed to list prompts from '' @ internalName) e
           | Inr promptsResult \<Rightarrow>
               (Inr (case promptsResult of None \<Rightarrow> [] | Some ps \<Rightarrow> ps), [])))"

definition getPrompt ::
  "ws_world \<Rightarrow> cache \<Rightarrow> jstring \<Rightarrow> jstring \<Rightarrow> (js_error + json option) \<times> event list" where
  "getPrompt W cache internalName promptName =
     (case map_of cache internalName of
        None \<Rightarrow> (Inr None, [])
      | Some mcpClient \<Rightarrow>
          (case srv_getPrompt (ws_server W) mcpClient promptName of
             Inl e \<Rightarrow>
               rethrow (lit ''Action getPrompt failed for '' @ internalName @ lit '' (Prompt: '' @ promptName @ lit '')'')
                       (lit ''Failed to get prompt '' @ [0x22] @ promptName @ [0x22] @ lit '' from '' @ internalName) e
           | Inr promptResult \<Rightarrow> (Inr (Some promptResult), [])))"

section \<open>The first registration variant (unnamed file \<open>part_002\<close>)\<close>

text \<open>
  \<open>register\<close> (lines 8--61): the API key is required, then a non-empty server list, then
  each server is connected over HTTP; an exception of \<open>connect\<close> is not caught.
\<close>

fun connect_http :: "(jstring \<Rightarrow> js_error option) \<Rightarrow> server_cfg list \<Rightarrow> (js_error + unit) \<times> event list" where
  "connect_http http_connect [] = (Inr (), [])"
| "connect_http http_connect (server # rest) =
     (case http_connect (lit ''https://server.smithery.ai/'' @ sv_qualifiedName server) of
        Some e \<Rightarrow> (Inl e, [ClientConnect])
      | None \<Rightarrow>
          (case connect_http http_connect rest of (r, tr) \<Rightarrow> (r, ClientConnect # tr)))"

definition register_part002 ::
  "(jstring \<Rightarrow> js_error option) \<Rightarrow> jstring option \<Rightarrow> server_entry list option
     \<Rightarrow> (js_error + unit) \<times> event list" where
  "register_part002 http_connect smitheryApiKey config_servers =
     (if falsy smitheryApiKey
      then (Inl (RuntimeError (lit ''Smithery API Key is required for integration.'')), [])
      else
        (let servers = (case config_servers of None \<Rightarrow> [] | Some ss \<Rightarrow> ss)
         in if length servers = 0
            then (Inl (RuntimeError (lit ''At least one MCP server configuration is required.'')), [])
            else
              (case serverConfigs servers of
                 Inl e \<Rightarrow> (Inl e, [])
               | Inr cs \<Rightarrow> connect_http http_connect cs)))"

section \<open>The registry client (\<open>SmitheryRegistryClient\<close>, second half of \<open>client3.ts\<close>)\<close>

text \<open>
  The registry answers two HTTP requests; what it answers comes from the outside: for
  \<open>GET /servers/{qualifiedName}\<close> the server's information or the message of the failed
  request, for \<open>GET /servers?q=\<close> the \<open>servers\<close> field of the response (the qualified names
  of the matches, the only field the code reads, or nothing) or the message of the
  failed request. Both take the API key of the \<open>Authorization\<close> header.
\<close>

record server_connection =
  conn_type :: jstring
  conn_url :: "jstring option"

record server_info =
  si_qualifiedName :: jstring
  si_displayName :: jstring
  si_deploymentUrl :: jstring
  si_connections :: "server_connection list"

record registry =
  get_servers_by_name :: "jstring \<Rightarrow> jstring \<Rightarrow> jstring + server_info"
  get_servers_by_query :: "jstring \<Rightarrow> jstring \<Rightarrow> jstring + jstring list option"

text \<open>\<open>listServers\<close> (lines 178--199), called with a query only.\<close>

definition listServers ::
  "registry \<Rightarrow> jstring \<Rightarrow> jstring \<Rightarrow> (js_error + jstring list option) \<times> event list" where
  "listServers R apiKey query =
     (case get_servers_by_query R apiKey query of
        Inl m \<Rightarrow> (Inl (Error (lit ''Failed to list servers: '' @ m)), [HttpListServers query])
      | Inr d \<Rightarrow> (Inr d, [HttpListServers query]))"

text \<open>\<open>getServer\<close> (lines 206--224): a name with a slash and no leading \<open>@\<close> gets one.\<close>

definition at_name :: "jstring \<Rightarrow> jstring" where
  "at_name qualifiedName =
     (if cu CHR ''/'' \<in> set qualifiedName \<and> \<not> startsWith qualifiedName (lit ''@'') then
        (case split (cu CHR ''/'') qualifiedName of
           owner # repoParts \<Rightarrow> lit ''@'' @ owner @ lit ''/'' @ join (lit ''/'') repoParts
         | [] \<Rightarrow> qualifiedName)
      else qualifiedName)"

definition getServer ::
  "registry \<Rightarrow> jstring \<Rightarrow> jstring \<Rightarrow> (js_error + server_info) \<times> event list" where
  "getServer R apiKey qualifiedName =
     (let qn = at_name qualifiedName
      in case get_servers_by_name R apiKey qn of
           Inl m \<Rightarrow>
             (Inl (Error (lit ''Failed to get server info for '' @ qn @ lit '': '' @ m)), [HttpGetServer qn])
         | Inr d \<Rightarrow> (Inr d, [HttpGetServer qn]))"

text \<open>
  The search query of \<open>findServerConfiguration\<close> (lines 245--247): for a name with a
  slash, the piece before the first slash without its first \<open>@\<close> and the piece after it;
  otherwise the name itself.
\<close>

definition searchQuery :: "jstring \<Rightarrow> jstring" where
  "searchQuery qualifiedName =
     (if cu CHR ''/'' \<in> set qualifiedName then
        (case split (cu CHR ''/'') qualifiedName of
           owner # repo # rest \<Rightarrow>
             lit ''owner:'' @ remove1 (cu CHR ''@'') owner @ lit '' repo:'' @ repo @ lit '' is:deployed''
         | _ \<Rightarrow> qualifiedName)
      else qualifiedName)"

text \<open>
  \<open>findServerConfiguration\<close> (lines 231--259): the direct lookup, and in its \<open>catch\<close> the
  search, the first match, and the lookup of that match. What the \<open>catch\<close> block throws
  (a failed search, a failed second lookup, no match) is thrown to the caller.
\<close>

definition findServerConfiguration ::
  "registry \<Rightarrow> jstring \<Rightarrow> jstring \<Rightarrow> (js_error + server_info) \<times> event list" where
  "findServerConfiguration R apiKey qualifiedName =
     (case getServer R apiKey qualifiedName of
        (Inr info, t1) \<Rightarrow> (Inr info, t1)
      | (Inl e, t1) \<Rightarrow>
          (case listServers R apiKey (searchQuery qualifiedName) of
             (Inl e2, t2) \<Rightarrow> (Inl e2, t1 @ t2)
           | (Inr searchResults, t2) \<Rightarrow>
               (case searchResults of
                  Some (server # others) \<Rightarrow>
                    (case getServer R apiKey server of (r, t3) \<Rightarrow> (r, t1 @ t2 @ t3))
                | _ \<Rightarrow>
                    (Inl (Error (lit ''Could not find server matching '' @ qualifiedName)), t1 @ t2))))"

section \<open>The registry-resolving client (\<open>MCPClient\<close>, first half of \<open>client3.ts\<close>)\<close>

record smithery_config =
  sc_internalName :: "jstring option"
  sc_apiKey :: jstring
  sc_qualifiedName :: jstring
  sc_serverConfig :: json

record ws_transport =
  wt_url :: jstring
  wt_authorization :: jstring

record mcp_client =
  mc_config :: smithery_config
  mc_connected :: bool
  mc_transport :: "ws_transport option"

text \<open>
  \<open>connect\<close> awaits \<open>Promise.race([connectionPromise, timeoutPromise])\<close>, where the second
  promise rejects with \<open>Error('Connection timeout')\<close> from a timer of 30000 ms. Which
  promise settles first is decided in real time, outside the code: it is an outcome the
  world gives for the transport. The timer's delay is in the trace.
\<close>

datatype race_outcome = ConnectResolved | ConnectRejected js_error | TimerFired

record smithery_world =
  sw_registry :: registry
  sw_race :: "ws_transport \<Rightarrow> race_outcome"
  sw_disconnect :: "mcp_client \<Rightarrow> js_error option"
  sw_server :: "mcp_client server"

definition new_MCPClient3 :: "smithery_config \<Rightarrow> mcp_client" where
  "new_MCPClient3 config = \<lparr>mc_config = config, mc_connected = False, mc_transport = None\<rparr>"

text \<open>
  The \<open>try\<close> block of \<open>connect\<close> (lines 41--83): the server is looked up in the
  registry, its first connection of type \<open>ws\<close> gives the URL (\<open>wsConnection.url\<close>, or the
  deployment URL followed by \<open>/ws\<close>), the transport is built with the API key in its
  \<open>Authorization\<close> header, the SDK client's \<open>connect\<close> is called on it, the timer is set, and
  the race of the two is awaited.
\<close>

definition smithery_url :: "server_info \<Rightarrow> server_connection \<Rightarrow> jstring" where
  "smithery_url serverInfo wsConnection =
     (if falsy (conn_url wsConnection) then si_deploymentUrl serverInfo @ lit ''/ws''
      else show_opt (conn_url wsConnection))"

definition websocket_transport :: "smithery_config \<Rightarrow> jstring \<Rightarrow> ws_transport" where
  "websocket_transport cfg url = \<lparr>wt_url = url, wt_authorization = lit ''Bearer '' @ sc_apiKey cfg\<rparr>"

definition connect_try :: "smithery_world \<Rightarrow> mcp_client \<Rightarrow> (js_error + unit) \<times> mcp_client \<times> event list" where
  "connect_try W c =
     (let cfg = mc_config c
      in case findServerConfiguration (sw_registry W) (sc_apiKey cfg) (sc_qualifiedName cfg) of
           (Inl e, t1) \<Rightarrow> (Inl e, c, t1)
         | (Inr serverInfo, t1) \<Rightarrow>
             (case find (\<lambda>conn. conn_type conn = lit ''ws'') (si_connections serverInfo) of
                None \<Rightarrow>
                  (Inl (Error (lit ''No WebSocket connection available for '' @ sc_qualifiedName cfg)), c, t1)
              | Some wsConnection \<Rightarrow>
                  (let url = smithery_url serverInfo wsConnection;
                       transport = websocket_transport cfg url;
                       c1 = c\<lparr>mc_transport := Some transport\<rparr>;
                       tr = t1 @ [NewWebSocketTransport url, ClientConnect, SetTimeout 30000]
                   in case sw_race W transport of
                        ConnectResolved \<Rightarrow> (Inr (), c1\<lparr>mc_connected := True\<rparr>, tr)
                      | ConnectRejected e \<Rightarrow> (Inl e, c1, tr)
                      | TimerFired \<Rightarrow> (Inl (Error (lit ''Connection timeout'')), c1, tr))))"

text \<open>
  \<open>connect\<close> (lines 35--98): nothing is done on a connected client; a failure of the
  \<open>try\<close> block is logged and thrown again.
\<close>

definition connect3 :: "smithery_world \<Rightarrow> mcp_client \<Rightarrow> (js_error + unit) \<times> mcp_client \<times> event list" where
  "connect3 W c =
     (if mc_connected c then (Inr (), c, [])
      else
        (case connect_try W c of
           (Inr u, c1, tr) \<Rightarrow> (Inr u, c1, tr)
         | (Inl error, c1, tr) \<Rightarrow>
             (Inl error, c1\<lparr>mc_connected := False\<rparr>,
              tr @ [LogError (lit ''Connection failed to '' @ sc_qualifiedName (mc_config c) @ lit '': '' @ message error)]
                 @ (if str_includes (message error) (lit ''Connection closed'')
                    then [LogError (lit ''This may be due to invalid API key or server configuration.'')]
                    else []))))"

text \<open>
  \<open>disconnect\<close> (lines 100--114): nothing is done on a client that is not connected; an
  exception of the SDK client's \<open>disconnect\<close> is logged as a warning and thrown again,
  with the client marked as not connected.
\<close>

definition disconnect3 :: "smithery_world \<Rightarrow> mcp_client \<Rightarrow> (js_error + unit) \<times> mcp_client \<times> event list" where
  "disconnect3 W c =
     (if \<not> mc_connected c then (Inr (), c, [])
      else
        (case sw_disconnect W c of
           None \<Rightarrow> (Inr (), c\<lparr>mc_connected := False\<rparr>, [ClientDisconnect])
         | Some error \<Rightarrow>
             (Inl error, c\<lparr>mc_connected := False\<rparr>,
              [ClientDisconnect, Warn (lit ''Error during disconnect: '' @ message error)])))"

section \<open>The registry-resolving integration (\<open>index3.ts\<close>)\<close>

type_synonym clients = "(jstring \<times> mcp_client) list"

text \<open>
  \<open>getAndParseServerConfig\<close> (lines 18--63): the entry with the internal name, complete
  and with a configuration text that parses to an object.
\<close>

definition parse_failed :: "jstring \<Rightarrow> jstring \<Rightarrow> jstring \<Rightarrow> (js_error + 'a) \<times> event list" where
  "parse_failed name raw m =
     (Inl (RuntimeError (lit ''Failed to parse Server Config JSON for '' @ [0x22] @ name @ [0x22]
             @ lit '': '' @ m @ lit ''. Ensure it's valid JSON.'')),
      [LogError (lit ''Failed to parse '' @ [0x22] @ lit ''smitheryServerConfigJson'' @ [0x22]
             @ lit '' for '' @ name @ lit '': '' @ m @ lit ''. Raw: '' @ raw)])"

definition getAndParseServerConfig ::
  "engine \<Rightarrow> jstring option \<Rightarrow> server_entry list option \<Rightarrow> (js_error + smithery_config) \<times> event list" where
  "getAndParseServerConfig E internalName servers =
     (case servers of
        None \<Rightarrow>
          (Inl (RuntimeError (lit ''Invalid integration configuration: '' @ [0x27]
                  @ lit ''servers'' @ [0x27] @ lit '' array is missing.'')),
           [LogError (lit ''Integration configuration '' @ [0x27] @ lit ''servers'' @ [0x27]
                  @ lit '' is not an array or is missing.'')])
      | Some entries \<Rightarrow>
          (case find (\<lambda>s. se_internalName s = internalName) entries of
             None \<Rightarrow>
               (Inl (RuntimeError (lit ''No MCP server configuration found for internalName: '' @ show_opt internalName)),
                [LogError (lit ''No MCP server configuration found for internalName: '' @ show_opt internalName)])
           | Some config \<Rightarrow>
               if falsy (se_smitheryApiKey config) \<or> falsy (se_smitheryQualifiedName config)
                  \<or> falsy (se_smitheryServerConfigJson config)
               then
                 (Inl (RuntimeError (lit ''Incomplete configuration for server '' @ [0x22]
                         @ show_opt internalName @ [0x22]
                         @ lit ''. Ensure API Key, Qualified Name, and Server Config JSON are set.'')),
                  [LogError (lit ''Incomplete configuration for internalName '' @ show_opt internalName
                         @ lit ''. Missing API key, qualified name, or config JSON.'')])
               else
                 (case JSON_parse_throw E (show_opt (se_smitheryServerConfigJson config)) of
                    Inl e \<Rightarrow>
                      parse_failed (show_opt internalName)
                        (show_opt (se_smitheryServerConfigJson config)) (message e)
                  | Inr parsedServerConfig \<Rightarrow>
                      if \<not> is_object parsedServerConfig
                      then parse_failed (show_opt internalName)
                             (show_opt (se_smitheryServerConfigJson config))
                             (lit ''Parsed configuration is not an object.'')
                      else
                        (Inr \<lparr>sc_internalName = se_internalName config,
                              sc_apiKey = show_opt (se_smitheryApiKey config),
                              sc_qualifiedName = show_opt (se_smitheryQualifiedName config),
                              sc_serverConfig = parsedServerConfig\<rparr>, []))))"

text \<open>
  The loop of \<open>register\<close> (lines 79--102): each entry is parsed, connected and stored
  under its internal name (\<open>Unnamed Server\<close> when it has none); any exception is logged
  and rethrown as a \<open>RuntimeError\<close>.
\<close>

definition setup_failed :: "jstring \<Rightarrow> js_error \<Rightarrow> jstring" where
  "setup_failed internalName e =
     lit ''Failed to setup connection for server '' @ [0x22] @ internalName @ [0x22]
       @ lit '': '' @ message e"

fun setup_connections ::
  "engine \<Rightarrow> smithery_world \<Rightarrow> server_entry list option \<Rightarrow> server_entry list \<Rightarrow> clients
     \<Rightarrow> (js_error + unit) \<times> clients \<times> event list" where
  "setup_connections E W servers [] connectedClients = (Inr (), connectedClients, [])"
| "setup_connections E W servers (config # rest) connectedClients =
     (let internalName = (case se_internalName config of None \<Rightarrow> lit ''Unnamed Server'' | Some n \<Rightarrow> n)
      in case getAndParseServerConfig E (se_internalName config) servers of
           (Inl e, t1) \<Rightarrow>
             (Inl (RuntimeError (setup_failed internalName e)), connectedClients,
              t1 @ [LogError (setup_failed internalName e)])
         | (Inr parsedConfig, t1) \<Rightarrow>
             (case connect3 W (new_MCPClient3 parsedConfig) of
                (Inl e, c1, t2) \<Rightarrow>
                  (Inl (RuntimeError (setup_failed internalName e)), connectedClients,
                   t1 @ t2 @ [LogError (setup_failed internalName e)])
              | (Inr u, c1, t2) \<Rightarrow>
                  (case setup_connections E W servers rest (AList.update internalName c1 connectedClients) of
                     (r, cs, t3) \<Rightarrow> (r, cs, t1 @ t2 @ t3))))"

text \<open>
  \<open>register\<close> (lines 66--105). \<open>ctx.configuration.servers ?? []\<close>: with no server the
  function warns and returns (``Don't throw an error, allow registration with no servers
  configured'').
\<close>

definition register3 ::
  "engine \<Rightarrow> smithery_world \<Rightarrow> server_entry list option \<Rightarrow> clients
     \<Rightarrow> (js_error + unit) \<times> clients \<times> event list" where
  "register3 E W servers connectedClients =
     (let configs = (case servers of None \<Rightarrow> [] | Some ss \<Rightarrow> ss)
      in if length configs = 0
         then (Inr (), connectedClients, [Warn (lit ''No Smithery MCP servers configured.'')])
         else setup_connections E W servers configs connectedClients)"

text \<open>
  \<open>unregister\<close> (lines 107--125): a disconnection is started for every stored client, in
  the order of the map, and \<open>Promise.all\<close> waits for all of them; an exception of a
  disconnect is caught and logged as a warning; then the map is cleared. The
  disconnections run concurrently: the events of one of them are in order, and how the
  events of different ones interleave is decided in real time. So the function returns
  one trace for each client, in the order of the map, and no combined trace.
\<close>

definition disconnect_entry :: "smithery_world \<Rightarrow> jstring \<times> mcp_client \<Rightarrow> event list" where
  "disconnect_entry W entry =
     (case entry of
        (internalName, client) \<Rightarrow>
          (case disconnect3 W client of
             (Inl error, c1, t) \<Rightarrow>
               t @ [Warn (lit ''Error disconnecting client for '' @ internalName @ lit '': '' @ message error)]
           | (Inr u, c1, t) \<Rightarrow> t))"

definition unregister3 ::
  "smithery_world \<Rightarrow> clients \<Rightarrow> (js_error + unit) \<times> clients \<times> event list list" where
  "unregister3 W connectedClients = (Inr (), [], map (disconnect_entry W) connectedClients)"

text \<open>
  \<open>getOrReconnectClient\<close> (lines 238--273): the stored client, or a new one that is
  parsed, connected and then stored. The \<open>try\<close> block that follows in the source is
  empty, so its \<open>catch\<close> never runs.
\<close>

definition getOrReconnectClient ::
  "engine \<Rightarrow> smithery_world \<Rightarrow> server_entry list option \<Rightarrow> clients \<Rightarrow> jstring
     \<Rightarrow> (js_error + mcp_client) \<times> clients \<times> event list" where
  "getOrReconnectClient E W servers connectedClients internalName =
     (case map_of connectedClients internalName of
        Some mcpClient \<Rightarrow> (Inr mcpClient, connectedClients, [])
      | None \<Rightarrow>
          (let w = Warn (lit ''Client for '' @ internalName @ lit '' not found or disconnected. Reconnecting...'')
           in case getAndParseServerConfig E (Some internalName) servers of
                (Inl e, t1) \<Rightarrow> (Inl e, connectedClients, w # t1)
              | (Inr parsedConfig, t1) \<Rightarrow>
                  (case connect3 W (new_MCPClient3 parsedConfig) of
                     (Inl e, c1, t2) \<Rightarrow> (Inl e, connectedClients, w # t1 @ t2)
                   | (Inr u, c1, t2) \<Rightarrow>
                       (Inr c1, AList.update internalName c1 connectedClients, w # t1 @ t2))))"

text \<open>\<open>listTools\<close> (lines 165--185): the client is obtained before the \<open>try\<close> block.\<close>

definition listTools3 ::
  "engine \<Rightarrow> smithery_world \<Rightarrow> server_entry list option \<Rightarrow> clients \<Rightarrow> jstring
     \<Rightarrow> (js_error + tool_out list) \<times> clients \<times> event list" where
  "listTools3 E W servers connectedClients internalName =
     (case getOrReconnectClient E W servers connectedClients internalName of
        (Inl e, cs, t) \<Rightarrow> (Inl e, cs, t)
      | (Inr mcpClient, cs, t) \<Rightarrow>
          (case srv_listTools (sw_server W) mcpClient of
             Inl e \<Rightarrow>
               (Inl (RuntimeError (lit ''Failed to list tools from '' @ internalName @ lit '': '' @ message e)), cs,
                t @ [LogError (lit ''Action listTools failed for '' @ internalName @ lit '': '' @ message e)])
           | Inr rawToolsResult \<Rightarrow>
               (Inr (map project (case rawToolsResult of None \<Rightarrow> [] | Some ts \<Rightarrow> ts)), cs, t)))"

section \<open>Example worlds\<close>

text \<open>
  Concrete engines, registries and servers, used where a theorem is applied to a concrete
  input. The registry does not know \<open>@owner/repo\<close>; its search for that owner and
  repository finds \<open>@owner/repo-server\<close>, which it knows. The stdio world is given the name
  in the SDK client's \<open>info\<close> member, or \<open>None\<close> for a client object without that member.
\<close>

definition example_engine :: engine where
  "example_engine =
     \<lparr>num_to_string = (\<lambda>l. l),
      num_is_zero = (\<lambda>l. l = lit ''0''),
      syntax_error_message = (\<lambda>s. lit ''Unexpected end of JSON input''),
      null_keys_message = lit ''Cannot convert undefined or null to object'',
      undefined_read_message =
        (\<lambda>p. lit ''Cannot read properties of undefined (reading '' @ [0x27] @ p @ [0x27] @ lit '')'')\<rparr>"

definition example_server :: "(js_error + json list option) \<Rightarrow> (js_error + raw_tool list option) \<Rightarrow> 'c server" where
  "example_server resources tools =
     \<lparr>srv_listResources = (\<lambda>c. resources),
      srv_readResource = (\<lambda>c uri. Inr (JStr uri)),
      srv_listTools = (\<lambda>c. tools),
      srv_callTool = (\<lambda>c name params. Inr params),
      srv_listPrompts = (\<lambda>c. Inr (Some [])),
      srv_getPrompt = (\<lambda>c name. Inr (JStr name))\<rparr>"

definition example_info :: server_info where
  "example_info =
     \<lparr>si_qualifiedName = lit ''@owner/repo-server'',
      si_displayName = lit ''Repo'',
      si_deploymentUrl = lit ''https://repo.example'',
      si_connections = [\<lparr>conn_type = lit ''ws'', conn_url = None\<rparr>]\<rparr>"

definition example_registry :: registry where
  "example_registry =
     \<lparr>get_servers_by_name =
        (\<lambda>key qn. if qn = lit ''@owner/repo-server'' then Inr example_info
                   else Inl (lit ''Request failed with status code 404'')),
      get_servers_by_query =
        (\<lambda>key q. if q = lit ''owner:owner repo:repo is:deployed'' then Inr (Some [lit ''@owner/repo-server''])
                  else Inr (Some []))\<rparr>"

definition example_world :: "race_outcome \<Rightarrow> js_error option \<Rightarrow> smithery_world" where
  "example_world race disc =
     \<lparr>sw_registry = example_registry,
      sw_race = (\<lambda>t. race),
      sw_disconnect = (\<lambda>c. disc),
      sw_server = example_server (Inr (Some [])) (Inr (Some []))\<rparr>"

definition example_config :: smithery_config where
  "example_config =
     \<lparr>sc_internalName = Some (lit ''gh''),
      sc_apiKey = lit ''key'',
      sc_qualifiedName = lit ''@owner/repo'',
      sc_serverConfig = JObj []\<rparr>"

definition example_entry :: server_entry where
  "example_entry =
     \<lparr>se_internalName = Some (lit ''gh''),
      se_smitheryQualifiedName = Some (lit ''@owner/repo''),
      se_smitheryServerConfigJson = Some (lit ''{}''),
      se_smitheryApiKey = Some (lit ''key'')\<rparr>"

definition example_stdio_world ::
  "jstring option \<Rightarrow> close_outcome \<Rightarrow> (js_error + json list option)
     \<Rightarrow> (js_error + raw_tool list option) \<Rightarrow> stdio_world" where
  "example_stdio_world info closing resources tools =
     \<lparr>new_transport = (\<lambda>t. None),
      sdk_connect = (\<lambda>t. None),
      command_attempted = (\<lambda>t. lit ''undefined''),
      command_info = lit ''Could not determine available commands.'',
      transport_close = (\<lambda>t. closing),
      client_info_name = info,
      stdio_server = example_server resources tools\<rparr>"

definition example_ws_world ::
  "(js_error + json list option) \<Rightarrow> (js_error + raw_tool list option) \<Rightarrow> ws_world" where
  "example_ws_world resources tools =
     \<lparr>ws_connect = (\<lambda>c. None),
      ws_server = example_server resources tools\<rparr>"

definition example_client :: sdk_client where
  "example_client =
     \<lparr>cl_name = lit ''gh-client'',
      cl_url = lit ''wss://server.smithery.ai/@owner/repo/ws'',
      cl_config = JObj []\<rparr>"

section \<open>Texts of the source\<close>

lemma lit_eq_iff [simp]: "lit a = lit b \<longleftrightarrow> a = b"
  unfolding lit_def by (rule inj_map_eq_map) (rule injI, simp)

lemma lit_Nil [simp]: "lit [] = []"
  by (simp add: lit_def)

lemma lit_eq_Nil_iff [simp]: "lit a = [] \<longleftrightarrow> a = []" "[] = lit a \<longleftrightarrow> a = []"
  by (auto simp: lit_def)

lemma lit_Cons: "lit (c # cs) = cu c # lit cs"
  by (simp add: lit_def)

lemma lit_append: "lit (a @ b) = lit a @ lit b"
  by (simp add: lit_def)

lemma lit_append_lit [simp]: "lit a @ lit b = lit (a @ b)" "lit a @ lit b @ x = lit (a @ b) @ x"
  by (simp_all add: lit_def)

lemma length_lit [simp]: "length (lit a) = length a"
  by (simp add: lit_def)

section \<open>The example worlds, evaluated\<close>

lemma example_find:
  "findServerConfiguration example_registry (lit ''key'') (lit ''@owner/repo'')
     = (Inr example_info,
        [HttpGetServer (lit ''@owner/repo''),
         HttpListServers (lit ''owner:owner repo:repo is:deployed''),
         HttpGetServer (lit ''@owner/repo-server'')])"
  by (simp add: findServerConfiguration_def getServer_def listServers_def example_registry_def
        at_name_def searchQuery_def startsWith_def lit_def)

lemma example_find_ws:
  "find (\<lambda>conn. conn_type conn = lit ''ws'') (si_connections example_info)
     = Some \<lparr>conn_type = lit ''ws'', conn_url = None\<rparr>"
  by (simp add: example_info_def)

lemma example_parse_entry:
  "getAndParseServerConfig example_engine (Some (lit ''gh'')) (Some [example_entry]) = (Inr example_config, [])"
proof -
  have p: "JSON_parse (lit ''{}'') = Some (JObj [])" by code_simp
  show ?thesis
    by (simp add: getAndParseServerConfig_def example_entry_def example_config_def falsy_def
          show_opt_def JSON_parse_throw_def p is_object_def)
qed

lemma example_parseConfiguration:
  "parseConfiguration example_engine (Some (lit ''{\"github\":{\"command\":\"npx\"}}''))
     = Inr \<lparr>cfg_connectionType = lit ''stdio'', cfg_command = Some (JStr (lit ''npx'')), cfg_args = None,
            cfg_environments = None, cfg_sseUrl = None, cfg_messagesPostEndpoint = None,
            cfg_headers = None\<rparr>"
proof -
  have p: "JSON_parse (lit ''{\"github\":{\"command\":\"npx\"}}'')
             = Some (JObj [(lit ''github'', JObj [(lit ''command'', JStr (lit ''npx''))])])"
    by code_simp
  have k: "own_entries (JObj [(lit ''github'', JObj [(lit ''command'', JStr (lit ''npx''))])])
             = [(lit ''github'', JObj [(lit ''command'', JStr (lit ''npx''))])]"
    by (simp add: own_entries_def is_array_index_def is_digit_def)
  have k2: "own_entries (JObj [(lit ''command'', JStr (lit ''npx''))]) = [(lit ''command'', JStr (lit ''npx''))]"
    by (simp add: own_entries_def is_array_index_def is_digit_def)
  show ?thesis
    by (simp add: parseConfiguration_def JSON_parse_throw_def show_opt_def p Object_keys_def k k2
          js_get_def Let_def)
qed

lemma example_new_MCPClient:
  "new_MCPClient example_engine (example_stdio_world info closing resources tools) []
     \<lparr>cfg_connectionType = lit ''stdio'', cfg_command = Some (JStr (lit ''npx'')), cfg_args = None,
      cfg_environments = None, cfg_sseUrl = None, cfg_messagesPostEndpoint = None,
      cfg_headers = None\<rparr> True
   = Inr \<lparr>sc_transport = StdioTransport (JStr (lit ''npx'')) [] [], sc_has_logger = True\<rparr>"
  by (simp add: new_MCPClient_def example_stdio_world_def parsedArgs_def stdio_env_def
        config_env_def parsedEnv_def is_object_def Let_def)

section \<open>The parser's fuel\<close>

text \<open>
  The parsers are given a bound on the depth of their calls. This section shows that the
  bound \<open>JSON_parse\<close> passes is never reached: every parser returns less than it was
  given, so the depth is bounded by the length of the text, and above that bound the
  result is the same for every fuel. A \<open>None\<close> of \<open>JSON_parse\<close> is therefore a text the
  grammar rejects, not a parse cut short.
\<close>

lemma skip_ws_length: "length (skip_ws s) \<le> length s"
  by (induction s) auto

lemma skip_ws_Cons_length: "skip_ws s = c # cs \<Longrightarrow> length cs < length s"
  using skip_ws_length[of s] by simp

lemma cons_fst_Some: "cons_fst x p = Some (ys, r) \<Longrightarrow> \<exists>xs. p = Some (xs, r)"
  by (cases p) (auto simp: cons_fst_def)

lemma parse_chars_u_short:
  "parse_chars (0x5C # cu CHR ''u'' # []) = None"
  "parse_chars (0x5C # cu CHR ''u'' # [a]) = None"
  "parse_chars (0x5C # cu CHR ''u'' # [a, b]) = None"
  "parse_chars (0x5C # cu CHR ''u'' # [a, b, d]) = None"
  by simp_all

lemma parse_chars_rest:
  assumes "parse_chars (c # cs) = Some (x, r)"
  shows "r = cs \<or> (\<exists>t y. parse_chars t = Some (y, r) \<and> length t \<le> length cs)"
proof (cases "c = 0x22")
  case True
  then show ?thesis using assms by simp
next
  case nq: False
  show ?thesis
  proof (cases "c = 0x5C")
    case bs: True
    show ?thesis
    proof (cases cs)
      case Nil
      then show ?thesis using assms nq bs by simp
    next
      case (Cons e r0)
      show ?thesis
      proof (cases "e = cu CHR ''u''")
        case u: True
        show ?thesis
        proof (cases "\<exists>h1 h2 h3 h4 r1. r0 = h1 # h2 # h3 # h4 # r1")
          case False
          then have "r0 = [] \<or> (\<exists>a. r0 = [a]) \<or> (\<exists>a b. r0 = [a, b]) \<or> (\<exists>a b d. r0 = [a, b, d])"
            by (metis neq_Nil_conv)
          then have "parse_chars (0x5C # cu CHR ''u'' # r0) = None"
            by (metis parse_chars_u_short)
          then have "parse_chars (c # cs) = None" using bs u Cons by simp
          then show ?thesis using assms by simp
        next
          case True
          then obtain h1 h2 h3 h4 r1 where r0: "r0 = h1 # h2 # h3 # h4 # r1" by blast
          have eq: "parse_chars (c # cs) =
                  (case hex4 h1 h2 h3 h4 of None \<Rightarrow> None
                   | Some n \<Rightarrow> cons_fst n (parse_chars r1))"
            using nq bs Cons u r0 by simp
          have v: "(case hex4 h1 h2 h3 h4 of None \<Rightarrow> None
                   | Some n \<Rightarrow> cons_fst n (parse_chars r1))
                 = Some (x, r)"
            using assms unfolding eq .
          obtain n where hx: "hex4 h1 h2 h3 h4 = Some n"
            using v by (cases "hex4 h1 h2 h3 h4") (simp_all only: option.case option.distinct)
          have c1: "cons_fst n (parse_chars r1) = Some (x, r)"
            using v unfolding hx by (simp only: option.case)
          from cons_fst_Some[OF c1] obtain y where y: "parse_chars r1 = Some (y, r)" ..
          have "length r1 \<le> length cs" using Cons r0 by simp
          then have "\<exists>t y. parse_chars t = Some (y, r) \<and> length t \<le> length cs"
            using y by (intro exI[of _ r1] exI[of _ y] conjI)
          then show ?thesis by (rule disjI2)
        qed
      next
        case nu: False
        have eq: "parse_chars (c # cs) =
               (case unescape e of None \<Rightarrow> None | Some ch \<Rightarrow> cons_fst ch (parse_chars r0))"
          using nq bs Cons nu by simp
        have "(case unescape e of None \<Rightarrow> None | Some ch \<Rightarrow> cons_fst ch (parse_chars r0))
                = Some (x, r)"
          using assms unfolding eq .
        then obtain ch where c2: "cons_fst ch (parse_chars r0) = Some (x, r)"
          by (cases "unescape e") (simp_all only: option.case option.distinct)
        from cons_fst_Some[OF c2] obtain y where y: "parse_chars r0 = Some (y, r)" ..
        have "length r0 \<le> length cs" using Cons by simp
        then have "\<exists>t y. parse_chars t = Some (y, r) \<and> length t \<le> length cs"
          using y by (intro exI[of _ r0] exI[of _ y] conjI)
        then show ?thesis by (rule disjI2)
      qed
    qed
  next
    case nb: False
    have eq: "parse_chars (c # cs) = (if c < 32 then None else cons_fst c (parse_chars cs))"
      using nq nb by simp
    have "(if c < 32 then None else cons_fst c (parse_chars cs)) = Some (x, r)"
      using assms unfolding eq .
    then have c3: "cons_fst c (parse_chars cs) = Some (x, r)"
      by (cases "c < 32") (simp_all only: if_True if_False option.distinct)
    from cons_fst_Some[OF c3] obtain y where y: "parse_chars cs = Some (y, r)" ..
    have "length cs \<le> length cs" by simp
    then have "\<exists>t y. parse_chars t = Some (y, r) \<and> length t \<le> length cs"
      using y by (intro exI[of _ cs] exI[of _ y] conjI)
    then show ?thesis by (rule disjI2)
  qed
qed

lemma parse_chars_length_aux:
  "length s \<le> n \<Longrightarrow> parse_chars s = Some (x, r) \<Longrightarrow> length r < length s"
proof (induction n arbitrary: s x)
  case 0
  then show ?case by simp
next
  case (Suc n)
  then obtain c cs where s: "s = c # cs" by (cases s) auto
  from parse_chars_rest[of c cs x r] Suc.prems s
  consider "r = cs" | t y where "parse_chars t = Some (y, r)" "length t \<le> length cs"
    by auto
  then show ?case
  proof cases
    case 1
    then show ?thesis using s by simp
  next
    case 2
    then have "length r < length t" using Suc.IH[of t y] Suc.prems(1) s by simp
    then show ?thesis using 2(2) s by simp
  qed
qed

lemma parse_chars_length: "parse_chars s = Some (x, r) \<Longrightarrow> length r < length s"
  using parse_chars_length_aux[of s "length s"] by simp

lemma take_digits_length: "take_digits s = (ds, r) \<Longrightarrow> length r \<le> length s"
  by (auto simp: take_digits_def length_dropWhile_le)

lemma parse_int_part_length: "parse_int_part s = Some (i, r) \<Longrightarrow> length r < length s"
  using take_digits_length
  by (cases s) (fastforce simp: parse_int_part_def split: if_splits prod.splits)+

lemma parse_frac_length: "parse_frac s = Some (f, r) \<Longrightarrow> length r \<le> length s"
  using take_digits_length
  by (cases s) (fastforce simp: parse_frac_def split: if_splits prod.splits)+

lemma parse_exp_length: "parse_exp s = Some (e, r) \<Longrightarrow> length r \<le> length s"
proof (cases s)
  case Nil
  then show "parse_exp s = Some (e, r) \<Longrightarrow> length r \<le> length s" by (simp add: parse_exp_def)
next
  case (Cons c cs)
  assume a: "parse_exp s = Some (e, r)"
  show "length r \<le> length s"
  proof (cases "c = cu CHR ''e'' \<or> c = cu CHR ''E''")
    case False
    then show ?thesis using a Cons by (auto simp: parse_exp_def)
  next
    case e: True
    then obtain d ds where cs: "cs = d # ds" using a Cons by (cases cs) (auto simp: parse_exp_def)
    show ?thesis
    proof (cases "d = cu CHR ''+'' \<or> d = cu CHR ''-''")
      case True
      obtain xs r' where t: "take_digits ds = (xs, r')" by (cases "take_digits ds")
      then have "r = r'" using a Cons cs True e
        by (auto simp: parse_exp_def split: if_splits)
      then show ?thesis using take_digits_length[OF t] Cons cs by simp
    next
      case False
      obtain xs r' where t: "take_digits cs = (xs, r')" by (cases "take_digits cs")
      then have "r = r'" using a Cons cs False e
        by (auto simp: parse_exp_def split: if_splits)
      then show ?thesis using take_digits_length[OF t] Cons by simp
    qed
  qed
qed

lemma parse_number_length:
  assumes "parse_number s = Some (l, r)"
  shows "length r < length s"
proof -
  obtain sign s1 where sg: "(case s of c # cs \<Rightarrow> if c = cu CHR ''-'' then ([c], cs) else ([], s) | [] \<Rightarrow> ([], s)) = (sign, s1)"
    by (cases "(case s of c # cs \<Rightarrow> if c = cu CHR ''-'' then ([c], cs) else ([], s) | [] \<Rightarrow> ([], s))")
  then have l1: "length s1 \<le> length s" by (auto split: list.splits if_splits)
  obtain i s2 where ip: "parse_int_part s1 = Some (i, s2)"
    using assms sg by (auto simp: parse_number_def split: option.splits)
  obtain f s3 where fp: "parse_frac s2 = Some (f, s3)"
    using assms sg ip by (auto simp: parse_number_def split: option.splits)
  obtain e s4 where ep: "parse_exp s3 = Some (e, s4)"
    using assms sg ip fp by (auto simp: parse_number_def split: option.splits)
  have "r = s4" using assms sg ip fp ep by (simp add: parse_number_def)
  then show ?thesis
    using l1 parse_int_part_length[OF ip] parse_frac_length[OF fp] parse_exp_length[OF ep] by simp
qed

text \<open>What a parser returns is shorter than what it was given.\<close>

lemma parse_shorter:
  "(\<forall>s v r. parse_value n s = Some (v, r) \<longrightarrow> length r < length s)
   \<and> (\<forall>s vs r. parse_elems n s = Some (vs, r) \<longrightarrow> length r < length s)
   \<and> (\<forall>s acc kvs r. parse_members n acc s = Some (kvs, r) \<longrightarrow> length r < length s)"
proof (induction n)
  case 0
  then show ?case by simp
next
  case (Suc n)
  have IHv: "length r < length s" if "parse_value n s = Some (v, r)" for s v r
    using Suc that by blast
  have IHe: "length r < length s" if "parse_elems n s = Some (vs, r)" for s vs r
    using Suc that by blast
  have IHm: "length r < length s" if "parse_members n acc s = Some (kvs, r)" for s acc kvs r
    using Suc that by blast
  have V: "length r < length s" if a: "parse_value (Suc n) s = Some (v, r)" for s v r
  proof (cases "skip_ws s")
    case Nil
    then show ?thesis using a by simp
  next
    case (Cons c cs)
    have lcs: "length cs < length s" using Cons by (rule skip_ws_Cons_length)
    consider (obj) "c = cu CHR ''{''" | (arr) "c = cu CHR ''[''" | (str) "c = 0x22"
      | (other) "c \<noteq> cu CHR ''{''" "c \<noteq> cu CHR ''[''" "c \<noteq> 0x22"
      by blast
    then show ?thesis
    proof cases
      case obj
      show ?thesis
      proof (cases "skip_ws cs")
        case Nil
        then show ?thesis using a Cons obj by simp
      next
        case d: (Cons d ds)
        have lds: "length ds < length cs" using d by (rule skip_ws_Cons_length)
        show ?thesis
        proof (cases "d = cu CHR ''}''")
          case True
          then have "r = ds" using a Cons obj d by simp
          then show ?thesis using lds lcs by simp
        next
          case False
          then obtain kvs where "parse_members n [] cs = Some (kvs, r)"
            using a Cons obj d by (cases "parse_members n [] cs") auto
          then show ?thesis using IHm lcs by fastforce
        qed
      qed
    next
      case arr
      show ?thesis
      proof (cases "skip_ws cs")
        case Nil
        then show ?thesis using a Cons arr by simp
      next
        case d: (Cons d ds)
        have lds: "length ds < length cs" using d by (rule skip_ws_Cons_length)
        show ?thesis
        proof (cases "d = cu CHR '']''")
          case True
          then have "r = ds" using a Cons arr d by simp
          then show ?thesis using lds lcs by simp
        next
          case False
          then obtain vs where "parse_elems n cs = Some (vs, r)"
            using a Cons arr d by (cases "parse_elems n cs") auto
          then show ?thesis using IHe lcs by fastforce
        qed
      qed
    next
      case str
      then obtain x where "parse_chars cs = Some (x, r)"
        using a Cons by (cases "parse_chars cs") auto
      then show ?thesis using parse_chars_length lcs by fastforce
    next
      case other
      have ls: "length (c # cs) \<le> length s" using lcs by simp
      have eq: "parse_value (Suc n) s =
         (if startsWith (c # cs) (lit ''true'') then Some (JBool True, drop 4 (c # cs))
          else if startsWith (c # cs) (lit ''false'') then Some (JBool False, drop 5 (c # cs))
          else if startsWith (c # cs) (lit ''null'') then Some (JNull, drop 4 (c # cs))
          else (case parse_number (c # cs) of None \<Rightarrow> None | Some (l, r) \<Rightarrow> Some (JNum l, r)))"
        using Cons other by simp
      have r: "(if startsWith (c # cs) (lit ''true'') then Some (JBool True, drop 4 (c # cs))
          else if startsWith (c # cs) (lit ''false'') then Some (JBool False, drop 5 (c # cs))
          else if startsWith (c # cs) (lit ''null'') then Some (JNull, drop 4 (c # cs))
          else (case parse_number (c # cs) of None \<Rightarrow> None | Some (l, r) \<Rightarrow> Some (JNum l, r)))
         = Some (v, r)"
        using a unfolding eq .
      have "length r < length (c # cs)"
      proof (cases "startsWith (c # cs) (lit ''true'')")
        case True
        then show ?thesis using r by auto
      next
        case nt: False
        show ?thesis
        proof (cases "startsWith (c # cs) (lit ''false'')")
          case True
          then show ?thesis using r nt by auto
        next
          case nf: False
          show ?thesis
          proof (cases "startsWith (c # cs) (lit ''null'')")
            case True
            then show ?thesis using r nt nf by auto
          next
            case nn: False
            then obtain l where "parse_number (c # cs) = Some (l, r)"
              using r nt nf by (cases "parse_number (c # cs)") auto
            then show ?thesis by (rule parse_number_length)
          qed
        qed
      qed
      then show ?thesis using ls by simp
    qed
  qed
  have E: "length r < length s" if a: "parse_elems (Suc n) s = Some (vs, r)" for s vs r
  proof -
    obtain v r1 where pv: "parse_value n s = Some (v, r1)"
      using a by (cases "parse_value n s") auto
    have l1: "length r1 < length s" using pv by (rule IHv)
    show ?thesis
    proof (cases "skip_ws r1")
      case Nil
      then show ?thesis using a pv by simp
    next
      case (Cons c cs)
      have lcs: "length cs < length r1" using Cons by (rule skip_ws_Cons_length)
      show ?thesis
      proof (cases "c = cu CHR '',''")
        case True
        then have "cons_fst v (parse_elems n cs) = Some (vs, r)" using a pv Cons by simp
        then obtain us where "parse_elems n cs = Some (us, r)" using cons_fst_Some by metis
        then have "length r < length cs" by (rule IHe)
        then show ?thesis using lcs l1 by simp
      next
        case False
        then have "r = cs" using a pv Cons by (auto split: if_splits)
        then show ?thesis using lcs l1 by simp
      qed
    qed
  qed
  have M: "length r < length s" if a: "parse_members (Suc n) acc s = Some (kvs, r)" for s acc kvs r
  proof (cases "skip_ws s")
    case Nil
    then show ?thesis using a by simp
  next
    case q: (Cons q s1)
    have l1: "length s1 < length s" using q by (rule skip_ws_Cons_length)
    have qq: "q = 0x22" using a q by (auto split: if_splits)
    obtain k s2 where pc: "parse_chars s1 = Some (k, s2)"
      using a q qq by (cases "parse_chars s1") auto
    have l2: "length s2 < length s1" using pc by (rule parse_chars_length)
    show ?thesis
    proof (cases "skip_ws s2")
      case Nil
      then show ?thesis using a q qq pc by simp
    next
      case c: (Cons colon s3)
      have l3: "length s3 < length s2" using c by (rule skip_ws_Cons_length)
      have cc: "colon = cu CHR '':''" using a q qq pc c by (auto split: if_splits)
      obtain v s4 where pv: "parse_value n s3 = Some (v, s4)"
        using a q qq pc c cc by (cases "parse_value n s3") auto
      have l4: "length s4 < length s3" using pv by (rule IHv)
      show ?thesis
      proof (cases "skip_ws s4")
        case Nil
        then show ?thesis using a q qq pc c cc pv by simp
      next
        case e: (Cons d ds)
        have l5: "length ds < length s4" using e by (rule skip_ws_Cons_length)
        show ?thesis
        proof (cases "d = cu CHR '',''")
          case True
          then have "parse_members n (AList.update k v acc) ds = Some (kvs, r)"
            using a q qq pc c cc pv e by simp
          then have "length r < length ds" by (rule IHm)
          then show ?thesis using l1 l2 l3 l4 l5 by simp
        next
          case False
          then have "r = ds" using a q qq pc c cc pv e by (auto split: if_splits)
          then show ?thesis using l1 l2 l3 l4 l5 by simp
        qed
      qed
    qed
  qed
  show ?case using V E M by blast
qed

lemma parse_value_shorter: "parse_value n s = Some (v, r) \<Longrightarrow> length r < length s"
  using parse_shorter by blast

text \<open>
  Enough fuel: above \<open>2 * length s + 1\<close> for a value, and \<open>2 * length s + 2\<close> for the
  rest of an array or of an object, the result does not depend on the fuel.
\<close>

lemma parse_fuel:
  "(\<forall>s m. 2 * length s + 1 \<le> n \<longrightarrow> 2 * length s + 1 \<le> m \<longrightarrow> parse_value n s = parse_value m s)
   \<and> (\<forall>s m. 2 * length s + 2 \<le> n \<longrightarrow> 2 * length s + 2 \<le> m \<longrightarrow> parse_elems n s = parse_elems m s)
   \<and> (\<forall>s acc m. 2 * length s + 2 \<le> n \<longrightarrow> 2 * length s + 2 \<le> m
         \<longrightarrow> parse_members n acc s = parse_members m acc s)"
proof (induction n)
  case 0
  then show ?case by simp
next
  case (Suc n)
  have IHv: "parse_value n s = parse_value m s"
    if "2 * length s + 1 \<le> n" "2 * length s + 1 \<le> m" for s m
    using Suc that by blast
  have IHe: "parse_elems n s = parse_elems m s"
    if "2 * length s + 2 \<le> n" "2 * length s + 2 \<le> m" for s m
    using Suc that by blast
  have IHm: "parse_members n acc s = parse_members m acc s"
    if "2 * length s + 2 \<le> n" "2 * length s + 2 \<le> m" for s acc m
    using Suc that by blast
  have V: "parse_value (Suc n) s = parse_value m s"
    if n: "2 * length s + 1 \<le> Suc n" and m: "2 * length s + 1 \<le> m" for s m
  proof -
    obtain k where k: "m = Suc k" using m by (cases m) auto
    show ?thesis
    proof (cases "skip_ws s")
      case Nil
      then show ?thesis unfolding k by simp
    next
      case (Cons c cs)
      have lcs: "length cs < length s" using Cons by (rule skip_ws_Cons_length)
      have bn: "2 * length cs + 2 \<le> n" using lcs n by simp
      have bk: "2 * length cs + 2 \<le> k" using lcs m k by simp
      have e: "parse_elems n cs = parse_elems k cs" using bn bk by (rule IHe)
      have mm: "parse_members n [] cs = parse_members k [] cs" using bn bk by (rule IHm)
      show ?thesis unfolding k using Cons e mm by (simp split: list.split)
    qed
  qed
  have E: "parse_elems (Suc n) s = parse_elems m s"
    if n: "2 * length s + 2 \<le> Suc n" and m: "2 * length s + 2 \<le> m" for s m
  proof -
    obtain k where k: "m = Suc k" using m by (cases m) auto
    have v: "parse_value n s = parse_value k s"
      using n m k by (intro IHv) simp_all
    show ?thesis
    proof (cases "parse_value k s")
      case None
      then show ?thesis unfolding k using v by simp
    next
      case (Some p)
      obtain x r1 where p: "p = (x, r1)" by (cases p)
      have pv: "parse_value k s = Some (x, r1)" using Some p by simp
      have l1: "length r1 < length s" using pv by (rule parse_value_shorter)
      show ?thesis
      proof (cases "skip_ws r1")
        case Nil
        then show ?thesis unfolding k using v pv by simp
      next
        case (Cons c cs)
        have lcs: "length cs < length r1" using Cons by (rule skip_ws_Cons_length)
        have e: "parse_elems n cs = parse_elems k cs"
          using lcs l1 n m k by (intro IHe) simp_all
        show ?thesis unfolding k using v pv Cons e by simp
      qed
    qed
  qed
  have M: "parse_members (Suc n) acc s = parse_members m acc s"
    if n: "2 * length s + 2 \<le> Suc n" and m: "2 * length s + 2 \<le> m" for s acc m
  proof -
    obtain k where k: "m = Suc k" using m by (cases m) auto
    show ?thesis
    proof (cases "skip_ws s")
      case Nil
      then show ?thesis unfolding k by simp
    next
      case q: (Cons q s1)
      have l1: "length s1 < length s" using q by (rule skip_ws_Cons_length)
      show ?thesis
      proof (cases "parse_chars s1")
        case None
        then show ?thesis unfolding k using q by simp
      next
        case (Some p)
        obtain key s2 where p: "p = (key, s2)" by (cases p)
        have pc: "parse_chars s1 = Some (key, s2)" using Some p by simp
        have l2: "length s2 < length s1" using pc by (rule parse_chars_length)
        show ?thesis
        proof (cases "skip_ws s2")
          case Nil
          then show ?thesis unfolding k using q pc by simp
        next
          case c: (Cons colon s3)
          have l3: "length s3 < length s2" using c by (rule skip_ws_Cons_length)
          have v: "parse_value n s3 = parse_value k s3"
            using l1 l2 l3 n m k by (intro IHv) simp_all
          show ?thesis
          proof (cases "parse_value k s3")
            case None
            then show ?thesis unfolding k using q pc c v by simp
          next
            case sv: (Some pr)
            obtain x s4 where pr: "pr = (x, s4)" by (cases pr)
            have pv: "parse_value k s3 = Some (x, s4)" using sv pr by simp
            have l4: "length s4 < length s3" using pv by (rule parse_value_shorter)
            show ?thesis
            proof (cases "skip_ws s4")
              case Nil
              then show ?thesis unfolding k using q pc c v pv by simp
            next
              case d: (Cons d ds)
              have l5: "length ds < length s4" using d by (rule skip_ws_Cons_length)
              have mm: "parse_members n acc' ds = parse_members k acc' ds" for acc'
                using l1 l2 l3 l4 l5 n m k by (intro IHm) simp_all
              show ?thesis unfolding k using q pc c v pv d mm by simp
            qed
          qed
        qed
      qed
    qed
  qed
  show ?case using V E M by blast
qed

lemma JSON_parse_fuel:
  assumes "2 * length s + 1 \<le> n"
  shows "JSON_parse s =
     (case parse_value n s of
        None \<Rightarrow> None
      | Some (v, r) \<Rightarrow> if skip_ws r = [] then Some v else None)"
proof -
  have "parse_value (2 * length s + 2) s = parse_value n s"
    using parse_fuel[of "2 * length s + 2"] assms by simp
  then show ?thesis unfolding JSON_parse_def by simp
qed

section \<open>Argument parsing\<close>

subsection \<open>\<open>JSON.parse\<close> reads back what \<open>JSON.stringify\<close> writes for strings\<close>
















lemma split_no_sep: "sep \<notin> set w \<Longrightarrow> split sep w = [w]"
  by (induction w) (auto split: list.splits)

lemma split_word_sep: "sep \<notin> set w \<Longrightarrow> split sep (w @ sep # rest) = w # split sep rest"
  by (induction w) (auto split: list.splits)





section \<open>Environment construction\<close>















section \<open>Teardown\<close>

lemma disconnect_entry_failed:
  assumes "mc_connected cl" "sw_disconnect W cl = Some e"
  shows "disconnect_entry W (name, cl)
           = [ClientDisconnect, Warn (lit ''Error during disconnect: '' @ message e),
              Warn (lit ''Error disconnecting client for '' @ name @ lit '': '' @ message e)]"
  using assms by (simp add: disconnect_entry_def disconnect3_def)

lemma stdio_disconnect_closes:
  assumes "\<not> sc_has_logger sc \<or> client_info_name Ws \<noteq> None"
  shows "stdio_disconnect E Ws sc =
     (case transport_close Ws (sc_transport sc) of
        NoCloseMethod \<Rightarrow> (Inr (), [])
      | CloseReturns \<Rightarrow> (Inr (), [TransportClose])
      | CloseThrows txt \<Rightarrow>
          (Inr (), TransportClose # logger_call (sc_has_logger sc)
                     (Warn (lit ''Error during explicit transport close: '' @ txt))))"
  using assms by (auto simp: stdio_disconnect_def)

lemma stdio_disconnect_returns:
  assumes "\<not> sc_has_logger sc \<or> client_info_name Ws \<noteq> None"
  shows "fst (stdio_disconnect E Ws sc) = Inr ()"
  unfolding stdio_disconnect_closes[OF assms]
  by (cases "transport_close Ws (sc_transport sc)") simp_all

text \<open>
  With a logger and an SDK client that has no \<open>info\<close> member, the first line of
  \<open>disconnect\<close> throws and nothing is closed.
\<close>

lemma stdio_disconnect_info_missing:
  assumes "sc_has_logger sc" "client_info_name Ws = None"
  shows "stdio_disconnect E Ws sc = (Inl (TypeError (undefined_read_message E (lit ''name''))), [])"
  using assms by (simp add: stdio_disconnect_def)

text \<open>
  Claim C1, amended. Teardown is best-effort where the integration tears down. Once the
  stdio client's \<open>disconnect\<close> is past its first log line (there is no logger, or the
  SDK's client has an \<open>info\<close> member), it throws nothing: a transport without \<open>close\<close> is a
  no-op, and an exception of \<open>close\<close> is swallowed, and logged as a warning when there is
  a logger. \<open>unregister\<close> never throws and leaves the connection map empty whatever the
  disconnections do; the trace of a failed disconnection has the client's warning and
  then the warning of \<open>unregister\<close>. The registry-resolving client's own \<open>disconnect\<close> logs
  a failure, marks the client as not connected and throws the error again to its caller.
\<close>

theorem teardown_best_effort:
  "(\<not> sc_has_logger sc \<or> client_info_name Ws \<noteq> None \<longrightarrow>
      fst (stdio_disconnect E Ws sc) = Inr ())
   \<and> ((\<not> sc_has_logger sc \<or> client_info_name Ws \<noteq> None)
        \<and> transport_close Ws (sc_transport sc) = NoCloseMethod \<longrightarrow>
      stdio_disconnect E Ws sc = (Inr (), []))
   \<and> (client_info_name Ws \<noteq> None \<and> sc_has_logger sc
        \<and> transport_close Ws (sc_transport sc) = CloseThrows txt \<longrightarrow>
      stdio_disconnect E Ws sc
        = (Inr (), [TransportClose, Warn (lit ''Error during explicit transport close: '' @ txt)]))
   \<and> (\<not> sc_has_logger sc \<and> transport_close Ws (sc_transport sc) = CloseThrows txt \<longrightarrow>
      stdio_disconnect E Ws sc = (Inr (), [TransportClose]))
   \<and> fst (unregister3 W cs) = Inr ()
   \<and> fst (snd (unregister3 W cs)) = []
   \<and> length (snd (snd (unregister3 W cs))) = length cs
   \<and> ((name, cl) \<in> set cs \<and> mc_connected cl \<and> sw_disconnect W cl = Some e \<longrightarrow>
        [ClientDisconnect, Warn (lit ''Error during disconnect: '' @ message e),
         Warn (lit ''Error disconnecting client for '' @ name @ lit '': '' @ message e)]
          \<in> set (snd (snd (unregister3 W cs))))
   \<and> (mc_connected cl \<and> sw_disconnect W cl = Some e \<longrightarrow>
        disconnect3 W cl
          = (Inl e, cl\<lparr>mc_connected := False\<rparr>,
             [ClientDisconnect, Warn (lit ''Error during disconnect: '' @ message e)]))"
proof (intro conjI impI)
  show "fst (stdio_disconnect E Ws sc) = Inr ()"
    if "\<not> sc_has_logger sc \<or> client_info_name Ws \<noteq> None"
    using that by (rule stdio_disconnect_returns)
  show "stdio_disconnect E Ws sc = (Inr (), [])"
    if "(\<not> sc_has_logger sc \<or> client_info_name Ws \<noteq> None)
        \<and> transport_close Ws (sc_transport sc) = NoCloseMethod"
  proof -
    have g: "\<not> sc_has_logger sc \<or> client_info_name Ws \<noteq> None" using that by blast
    show ?thesis unfolding stdio_disconnect_closes[OF g] using that by simp
  qed
  show "stdio_disconnect E Ws sc
        = (Inr (), [TransportClose, Warn (lit ''Error during explicit transport close: '' @ txt)])"
    if "client_info_name Ws \<noteq> None \<and> sc_has_logger sc
        \<and> transport_close Ws (sc_transport sc) = CloseThrows txt"
  proof -
    have g: "\<not> sc_has_logger sc \<or> client_info_name Ws \<noteq> None" using that by blast
    show ?thesis unfolding stdio_disconnect_closes[OF g] using that by (simp add: logger_call_def)
  qed
  show "stdio_disconnect E Ws sc = (Inr (), [TransportClose])"
    if "\<not> sc_has_logger sc \<and> transport_close Ws (sc_transport sc) = CloseThrows txt"
  proof -
    have g: "\<not> sc_has_logger sc \<or> client_info_name Ws \<noteq> None" using that by blast
    show ?thesis unfolding stdio_disconnect_closes[OF g] using that by (simp add: logger_call_def)
  qed
  show "fst (unregister3 W cs) = Inr ()" by (simp add: unregister3_def)
  show "fst (snd (unregister3 W cs)) = []" by (simp add: unregister3_def)
  show "length (snd (snd (unregister3 W cs))) = length cs" by (simp add: unregister3_def)
  show "[ClientDisconnect, Warn (lit ''Error during disconnect: '' @ message e),
         Warn (lit ''Error disconnecting client for '' @ name @ lit '': '' @ message e)]
          \<in> set (snd (snd (unregister3 W cs)))"
    if a: "(name, cl) \<in> set cs \<and> mc_connected cl \<and> sw_disconnect W cl = Some e"
  proof -
    have "disconnect_entry W (name, cl) \<in> disconnect_entry W ` set cs" using a by blast
    then show ?thesis using a disconnect_entry_failed[of cl W e name] by (simp add: unregister3_def)
  qed
  show "disconnect3 W cl
          = (Inl e, cl\<lparr>mc_connected := False\<rparr>,
             [ClientDisconnect, Warn (lit ''Error during disconnect: '' @ message e)])"
    if "mc_connected cl \<and> sw_disconnect W cl = Some e"
    using that by (simp add: disconnect3_def)
qed

text \<open>
  A client without a logger on a transport without \<open>close\<close> and on a transport whose
  \<open>close\<close> throws; a client with a logger whose SDK client is named; and a map with one
  connected client whose SDK client has no \<open>disconnect\<close> function.
\<close>

theorem teardown_best_effort_witness:
  "stdio_disconnect example_engine (example_stdio_world None NoCloseMethod (Inr None) (Inr None))
        \<lparr>sc_transport = StdioTransport (JStr (lit ''npx'')) [] [], sc_has_logger = False\<rparr> = (Inr (), [])
   \<and> stdio_disconnect example_engine
        (example_stdio_world None (CloseThrows (lit ''Error: kill EPERM'')) (Inr None) (Inr None))
        \<lparr>sc_transport = StdioTransport (JStr (lit ''npx'')) [] [], sc_has_logger = False\<rparr>
      = (Inr (), [TransportClose])
   \<and> stdio_disconnect example_engine
        (example_stdio_world (Some (lit ''github-mcp-client'')) (CloseThrows (lit ''Error: kill EPERM''))
           (Inr None) (Inr None))
        \<lparr>sc_transport = StdioTransport (JStr (lit ''npx'')) [] [], sc_has_logger = True\<rparr>
      = (Inr (), [TransportClose, Warn (lit ''Error during explicit transport close: Error: kill EPERM'')])
   \<and> mc_connected ((new_MCPClient3 example_config)\<lparr>mc_connected := True\<rparr>)
   \<and> unregister3 (example_world TimerFired (Some (TypeError (lit ''this.client.disconnect is not a function''))))
        [(lit ''gh'', (new_MCPClient3 example_config)\<lparr>mc_connected := True\<rparr>)]
      = (Inr (), [],
         [[ClientDisconnect,
           Warn (lit ''Error during disconnect: this.client.disconnect is not a function''),
           Warn (lit ''Error disconnecting client for gh: this.client.disconnect is not a function'')]])"
proof -
  let ?W1 = "example_stdio_world None NoCloseMethod (Inr None) (Inr None)"
  let ?W2 = "example_stdio_world None (CloseThrows (lit ''Error: kill EPERM'')) (Inr None) (Inr None)"
  let ?W3 = "example_stdio_world (Some (lit ''github-mcp-client'')) (CloseThrows (lit ''Error: kill EPERM''))
               (Inr None) (Inr None)"
  let ?s0 = "\<lparr>sc_transport = StdioTransport (JStr (lit ''npx'')) [] [], sc_has_logger = False\<rparr>"
  let ?s1 = "\<lparr>sc_transport = StdioTransport (JStr (lit ''npx'')) [] [], sc_has_logger = True\<rparr>"
  let ?e = "TypeError (lit ''this.client.disconnect is not a function'')"
  let ?W = "example_world TimerFired (Some ?e)"
  let ?cl = "(new_MCPClient3 example_config)\<lparr>mc_connected := True\<rparr>"
  have c1: "transport_close ?W1 (sc_transport ?s0) = NoCloseMethod \<and> \<not> sc_has_logger ?s0"
    by (simp add: example_stdio_world_def)
  have c2: "transport_close ?W2 (sc_transport ?s0) = CloseThrows (lit ''Error: kill EPERM'')"
    by (simp add: example_stdio_world_def)
  have c3: "transport_close ?W3 (sc_transport ?s1) = CloseThrows (lit ''Error: kill EPERM'')
            \<and> sc_has_logger ?s1 \<and> client_info_name ?W3 \<noteq> None"
    by (simp add: example_stdio_world_def)
  have c4: "(lit ''gh'', ?cl) \<in> set [(lit ''gh'', ?cl)] \<and> mc_connected ?cl \<and> sw_disconnect ?W ?cl = Some ?e"
    by (simp add: example_world_def)
  have u: "unregister3 ?W [(lit ''gh'', ?cl)]
      = (Inr (), [],
         [[ClientDisconnect,
           Warn (lit ''Error during disconnect: this.client.disconnect is not a function''),
           Warn (lit ''Error disconnecting client for gh: this.client.disconnect is not a function'')]])"
    by (simp add: unregister3_def disconnect_entry_def disconnect3_def example_world_def)
  show ?thesis
    using teardown_best_effort[of ?s0 ?W1 example_engine "lit ''x''" ?W "[(lit ''gh'', ?cl)]" "lit ''gh''" ?cl ?e]
      teardown_best_effort[of ?s0 ?W2 example_engine "lit ''Error: kill EPERM''" ?W "[(lit ''gh'', ?cl)]"
        "lit ''gh''" ?cl ?e]
      teardown_best_effort[of ?s1 ?W3 example_engine "lit ''Error: kill EPERM''" ?W "[(lit ''gh'', ?cl)]"
        "lit ''gh''" ?cl ?e]
      c1 c2 c3 c4 u
    by simp
qed

text \<open>
  \<open>MCPClient.disconnect\<close> of \<open>client3.ts\<close> propagates the exception to its caller
  (\<open>throw error\<close>, line 112).
\<close>

theorem disconnect3_rethrows_counterexample:
  "fst (disconnect3 (example_world TimerFired (Some (TypeError (lit ''this.client.disconnect is not a function''))))
         ((new_MCPClient3 example_config)\<lparr>mc_connected := True\<rparr>))
     = Inl (TypeError (lit ''this.client.disconnect is not a function''))"
  by (simp add: disconnect3_def example_world_def new_MCPClient3_def)

section \<open>Registration without servers\<close>

text \<open>
  Claim C2, amended. With an empty (or missing) server list, \<open>register\<close> of \<open>index.ts\<close>
  and of \<open>part_002\<close> fails with a \<open>RuntimeError\<close> (in \<open>part_002\<close> the missing API key is
  reported first); \<open>register\<close> of \<open>index3.ts\<close> logs a warning and completes, with the
  connection map unchanged.
\<close>

theorem register_without_servers:
  assumes "servers = None \<or> servers = Some []"
  shows "register E W servers cache
           = (Inl (RuntimeError (lit ''At least one MCP server configuration is required.'')), cache, [])
       \<and> (\<exists>m. register_part002 http_connect apiKey servers = (Inl (RuntimeError m), []))
       \<and> (\<not> falsy apiKey \<longrightarrow>
            register_part002 http_connect apiKey servers
              = (Inl (RuntimeError (lit ''At least one MCP server configuration is required.'')), []))
       \<and> register3 E W3 servers clients
           = (Inr (), clients, [Warn (lit ''No Smithery MCP servers configured.'')])"
  using assms
  by (auto simp: register_def register_part002_def register3_def)

theorem register_without_servers_witness:
  "register example_engine (example_ws_world (Inr None) (Inr None)) (Some []) []
           = (Inl (RuntimeError (lit ''At least one MCP server configuration is required.'')), [], [])
   \<and> \<not> falsy (Some (lit ''key''))
   \<and> register_part002 (\<lambda>url. None) (Some (lit ''key'')) (Some [])
           = (Inl (RuntimeError (lit ''At least one MCP server configuration is required.'')), [])
   \<and> register3 example_engine (example_world TimerFired None) (Some []) []
           = (Inr (), [], [Warn (lit ''No Smithery MCP servers configured.'')])"
proof -
  have s: "Some [] = None \<or> Some [] = Some ([] :: server_entry list)" by simp
  have k: "\<not> falsy (Some (lit ''key''))" by (simp add: falsy_def)
  show ?thesis
    using register_without_servers[OF s, of example_engine "example_ws_world (Inr None) (Inr None)" "[]"
        "\<lambda>url. None" "Some (lit ''key'')" "example_world TimerFired None" "[]"] k
    by simp
qed

text \<open>
  \<open>register\<close> of \<open>index3.ts\<close> completes on an empty server list (lines 70--74).
\<close>

theorem register3_empty_counterexample:
  "register3 example_engine (example_world TimerFired None) (Some []) []
     = (Inr (), [], [Warn (lit ''No Smithery MCP servers configured.'')])"
  by (simp add: register3_def)

section \<open>Connecting with a timeout\<close>

lemma connect_try_race:
  assumes "findServerConfiguration (sw_registry W) (sc_apiKey (mc_config c)) (sc_qualifiedName (mc_config c))
             = (Inr info, t1)"
    and "find (\<lambda>conn. conn_type conn = lit ''ws'') (si_connections info) = Some wsc"
  shows "connect_try W c =
     (case sw_race W (websocket_transport (mc_config c) (smithery_url info wsc)) of
        ConnectResolved \<Rightarrow>
          (Inr (),
           c\<lparr>mc_transport := Some (websocket_transport (mc_config c) (smithery_url info wsc)),
             mc_connected := True\<rparr>,
           t1 @ [NewWebSocketTransport (smithery_url info wsc), ClientConnect, SetTimeout 30000])
      | ConnectRejected e \<Rightarrow>
          (Inl e,
           c\<lparr>mc_transport := Some (websocket_transport (mc_config c) (smithery_url info wsc))\<rparr>,
           t1 @ [NewWebSocketTransport (smithery_url info wsc), ClientConnect, SetTimeout 30000])
      | TimerFired \<Rightarrow>
          (Inl (Error (lit ''Connection timeout'')),
           c\<lparr>mc_transport := Some (websocket_transport (mc_config c) (smithery_url info wsc))\<rparr>,
           t1 @ [NewWebSocketTransport (smithery_url info wsc), ClientConnect, SetTimeout 30000]))"
  using assms by (simp add: connect_try_def Let_def)

lemma timeout_not_closed:
  "\<not> str_includes (lit ''Connection timeout'') (lit ''Connection closed'')"
  by (simp add: lit_def startsWith_def)

lemma connect3_timeout:
  assumes nc: "\<not> mc_connected c"
    and f: "findServerConfiguration (sw_registry W) (sc_apiKey (mc_config c)) (sc_qualifiedName (mc_config c))
              = (Inr info, t1)"
    and ws: "find (\<lambda>conn. conn_type conn = lit ''ws'') (si_connections info) = Some wsc"
    and race: "sw_race W (websocket_transport (mc_config c) (smithery_url info wsc)) = TimerFired"
  shows "connect3 W c =
      (Inl (Error (lit ''Connection timeout'')),
       c\<lparr>mc_transport := Some (websocket_transport (mc_config c) (smithery_url info wsc)),
         mc_connected := False\<rparr>,
       t1 @ [NewWebSocketTransport (smithery_url info wsc), ClientConnect, SetTimeout 30000,
             LogError (lit ''Connection failed to '' @ sc_qualifiedName (mc_config c) @ lit '': ''
                         @ lit ''Connection timeout'')])"
proof -
  have t: "connect_try W c =
          (Inl (Error (lit ''Connection timeout'')),
           c\<lparr>mc_transport := Some (websocket_transport (mc_config c) (smithery_url info wsc))\<rparr>,
           t1 @ [NewWebSocketTransport (smithery_url info wsc), ClientConnect, SetTimeout 30000])"
    using connect_try_race[OF f ws] race by simp
  show ?thesis
    using nc timeout_not_closed by (simp add: connect3_def t)
qed

lemma getOrReconnectClient_failure:
  assumes "fst (getOrReconnectClient E W servers cs name) = Inl e"
  shows "fst (snd (getOrReconnectClient E W servers cs name)) = cs"
proof (cases "map_of cs name")
  case (Some m)
  then show ?thesis using assms by (simp add: getOrReconnectClient_def)
next
  case None
  obtain r t1 where g: "getAndParseServerConfig E (Some name) servers = (r, t1)"
    by (cases "getAndParseServerConfig E (Some name) servers")
  show ?thesis
  proof (cases r)
    case (Inl x)
    then show ?thesis using None g by (simp add: getOrReconnectClient_def)
  next
    case (Inr cfg)
    obtain r2 c1 t2 where k: "connect3 W (new_MCPClient3 cfg) = (r2, c1, t2)"
      by (cases "connect3 W (new_MCPClient3 cfg)") auto
    show ?thesis using None g Inr k assms
      by (cases r2) (simp_all add: getOrReconnectClient_def)
  qed
qed

text \<open>
  Claim C3. \<open>connect\<close> looks the server up, builds the transport, calls the SDK client's
  \<open>connect\<close> on it, sets a timer of 30000 ms and awaits the race of the two, in this
  order. When the timer wins, \<open>connect\<close> logs the failure and fails with the error
  \<open>Connection timeout\<close>, and the client is not connected; when the SDK's \<open>connect\<close>
  resolves first the client is connected, and when it rejects first \<open>connect\<close> fails with
  its error. On a timeout \<open>getOrReconnectClient\<close> fails with the same error and stores
  nothing: the map is the one it was given. On any failure of \<open>getOrReconnectClient\<close> the
  map is unchanged.
\<close>

theorem connect_timeout:
  "(\<not> mc_connected c
      \<and> findServerConfiguration (sw_registry W) (sc_apiKey (mc_config c)) (sc_qualifiedName (mc_config c))
          = (Inr info, t1)
      \<and> find (\<lambda>conn. conn_type conn = lit ''ws'') (si_connections info) = Some wsc
      \<and> sw_race W (websocket_transport (mc_config c) (smithery_url info wsc)) = TimerFired \<longrightarrow>
    connect3 W c =
      (Inl (Error (lit ''Connection timeout'')),
       c\<lparr>mc_transport := Some (websocket_transport (mc_config c) (smithery_url info wsc)),
         mc_connected := False\<rparr>,
       t1 @ [NewWebSocketTransport (smithery_url info wsc), ClientConnect, SetTimeout 30000,
             LogError (lit ''Connection failed to '' @ sc_qualifiedName (mc_config c) @ lit '': ''
                         @ lit ''Connection timeout'')]))
   \<and> (\<not> mc_connected c
      \<and> findServerConfiguration (sw_registry W) (sc_apiKey (mc_config c)) (sc_qualifiedName (mc_config c))
          = (Inr info, t1)
      \<and> find (\<lambda>conn. conn_type conn = lit ''ws'') (si_connections info) = Some wsc
      \<and> sw_race W (websocket_transport (mc_config c) (smithery_url info wsc)) = ConnectResolved \<longrightarrow>
    connect3 W c =
      (Inr (),
       c\<lparr>mc_transport := Some (websocket_transport (mc_config c) (smithery_url info wsc)),
         mc_connected := True\<rparr>,
       t1 @ [NewWebSocketTransport (smithery_url info wsc), ClientConnect, SetTimeout 30000]))
   \<and> (\<not> mc_connected c
      \<and> findServerConfiguration (sw_registry W) (sc_apiKey (mc_config c)) (sc_qualifiedName (mc_config c))
          = (Inr info, t1)
      \<and> find (\<lambda>conn. conn_type conn = lit ''ws'') (si_connections info) = Some wsc
      \<and> sw_race W (websocket_transport (mc_config c) (smithery_url info wsc)) = ConnectRejected e \<longrightarrow>
    connect3 W c =
      (Inl e,
       c\<lparr>mc_transport := Some (websocket_transport (mc_config c) (smithery_url info wsc)),
         mc_connected := False\<rparr>,
       t1 @ [NewWebSocketTransport (smithery_url info wsc), ClientConnect, SetTimeout 30000,
             LogError (lit ''Connection failed to '' @ sc_qualifiedName (mc_config c) @ lit '': ''
                         @ message e)]
          @ (if str_includes (message e) (lit ''Connection closed'')
             then [LogError (lit ''This may be due to invalid API key or server configuration.'')]
             else [])))
   \<and> (map_of cs name = None
      \<and> getAndParseServerConfig E (Some name) servers = (Inr cfg, t0)
      \<and> findServerConfiguration (sw_registry W) (sc_apiKey cfg) (sc_qualifiedName cfg) = (Inr info, t1)
      \<and> find (\<lambda>conn. conn_type conn = lit ''ws'') (si_connections info) = Some wsc
      \<and> sw_race W (websocket_transport cfg (smithery_url info wsc)) = TimerFired \<longrightarrow>
    getOrReconnectClient E W servers cs name =
      (Inl (Error (lit ''Connection timeout'')), cs,
       Warn (lit ''Client for '' @ name @ lit '' not found or disconnected. Reconnecting...'')
         # t0 @ t1
         @ [NewWebSocketTransport (smithery_url info wsc), ClientConnect, SetTimeout 30000,
            LogError (lit ''Connection failed to '' @ sc_qualifiedName cfg @ lit '': ''
                        @ lit ''Connection timeout'')]))
   \<and> (fst (getOrReconnectClient E W servers cs name) = Inl err \<longrightarrow>
        fst (snd (getOrReconnectClient E W servers cs name)) = cs)"
proof (intro conjI impI)
  assume a: "\<not> mc_connected c
      \<and> findServerConfiguration (sw_registry W) (sc_apiKey (mc_config c)) (sc_qualifiedName (mc_config c))
          = (Inr info, t1)
      \<and> find (\<lambda>conn. conn_type conn = lit ''ws'') (si_connections info) = Some wsc
      \<and> sw_race W (websocket_transport (mc_config c) (smithery_url info wsc)) = TimerFired"
  have nc: "\<not> mc_connected c" using a by blast
  have f: "findServerConfiguration (sw_registry W) (sc_apiKey (mc_config c)) (sc_qualifiedName (mc_config c))
          = (Inr info, t1)" using a by blast
  have ws: "find (\<lambda>conn. conn_type conn = lit ''ws'') (si_connections info) = Some wsc" using a by blast
  have race: "sw_race W (websocket_transport (mc_config c) (smithery_url info wsc)) = TimerFired"
    using a by blast
  show "connect3 W c =
      (Inl (Error (lit ''Connection timeout'')),
       c\<lparr>mc_transport := Some (websocket_transport (mc_config c) (smithery_url info wsc)),
         mc_connected := False\<rparr>,
       t1 @ [NewWebSocketTransport (smithery_url info wsc), ClientConnect, SetTimeout 30000,
             LogError (lit ''Connection failed to '' @ sc_qualifiedName (mc_config c) @ lit '': ''
                         @ lit ''Connection timeout'')])"
    by (rule connect3_timeout[OF nc f ws race])
next
  assume a: "\<not> mc_connected c
      \<and> findServerConfiguration (sw_registry W) (sc_apiKey (mc_config c)) (sc_qualifiedName (mc_config c))
          = (Inr info, t1)
      \<and> find (\<lambda>conn. conn_type conn = lit ''ws'') (si_connections info) = Some wsc
      \<and> sw_race W (websocket_transport (mc_config c) (smithery_url info wsc)) = ConnectResolved"
  have nc: "\<not> mc_connected c" using a by blast
  have f: "findServerConfiguration (sw_registry W) (sc_apiKey (mc_config c)) (sc_qualifiedName (mc_config c))
          = (Inr info, t1)" using a by blast
  have ws: "find (\<lambda>conn. conn_type conn = lit ''ws'') (si_connections info) = Some wsc" using a by blast
  have race: "sw_race W (websocket_transport (mc_config c) (smithery_url info wsc)) = ConnectResolved"
    using a by blast
  have t: "connect_try W c =
          (Inr (),
           c\<lparr>mc_transport := Some (websocket_transport (mc_config c) (smithery_url info wsc)),
             mc_connected := True\<rparr>,
           t1 @ [NewWebSocketTransport (smithery_url info wsc), ClientConnect, SetTimeout 30000])"
    using connect_try_race[OF f ws] race by simp
  show "connect3 W c =
      (Inr (),
       c\<lparr>mc_transport := Some (websocket_transport (mc_config c) (smithery_url info wsc)),
         mc_connected := True\<rparr>,
       t1 @ [NewWebSocketTransport (smithery_url info wsc), ClientConnect, SetTimeout 30000])"
    using nc by (simp add: connect3_def t)
next
  assume a: "\<not> mc_connected c
      \<and> findServerConfiguration (sw_registry W) (sc_apiKey (mc_config c)) (sc_qualifiedName (mc_config c))
          = (Inr info, t1)
      \<and> find (\<lambda>conn. conn_type conn = lit ''ws'') (si_connections info) = Some wsc
      \<and> sw_race W (websocket_transport (mc_config c) (smithery_url info wsc)) = ConnectRejected e"
  have nc: "\<not> mc_connected c" using a by blast
  have f: "findServerConfiguration (sw_registry W) (sc_apiKey (mc_config c)) (sc_qualifiedName (mc_config c))
          = (Inr info, t1)" using a by blast
  have ws: "find (\<lambda>conn. conn_type conn = lit ''ws'') (si_connections info) = Some wsc" using a by blast
  have race: "sw_race W (websocket_transport (mc_config c) (smithery_url info wsc)) = ConnectRejected e"
    using a by blast
  have t: "connect_try W c =
          (Inl e,
           c\<lparr>mc_transport := Some (websocket_transport (mc_config c) (smithery_url info wsc))\<rparr>,
           t1 @ [NewWebSocketTransport (smithery_url info wsc), ClientConnect, SetTimeout 30000])"
    using connect_try_race[OF f ws] race by simp
  show "connect3 W c =
      (Inl e,
       c\<lparr>mc_transport := Some (websocket_transport (mc_config c) (smithery_url info wsc)),
         mc_connected := False\<rparr>,
       t1 @ [NewWebSocketTransport (smithery_url info wsc), ClientConnect, SetTimeout 30000,
             LogError (lit ''Connection failed to '' @ sc_qualifiedName (mc_config c) @ lit '': ''
                         @ message e)]
          @ (if str_includes (message e) (lit ''Connection closed'')
             then [LogError (lit ''This may be due to invalid API key or server configuration.'')]
             else []))"
    using nc by (simp add: connect3_def t)
next
  assume b: "map_of cs name = None
      \<and> getAndParseServerConfig E (Some name) servers = (Inr cfg, t0)
      \<and> findServerConfiguration (sw_registry W) (sc_apiKey cfg) (sc_qualifiedName cfg) = (Inr info, t1)
      \<and> find (\<lambda>conn. conn_type conn = lit ''ws'') (si_connections info) = Some wsc
      \<and> sw_race W (websocket_transport cfg (smithery_url info wsc)) = TimerFired"
  have nc: "\<not> mc_connected (new_MCPClient3 cfg)" by (simp add: new_MCPClient3_def)
  have cf: "mc_config (new_MCPClient3 cfg) = cfg" by (simp add: new_MCPClient3_def)
  have f: "findServerConfiguration (sw_registry W) (sc_apiKey (mc_config (new_MCPClient3 cfg)))
             (sc_qualifiedName (mc_config (new_MCPClient3 cfg))) = (Inr info, t1)"
    using b cf by simp
  have ws: "find (\<lambda>conn. conn_type conn = lit ''ws'') (si_connections info) = Some wsc" using b by blast
  have race: "sw_race W (websocket_transport (mc_config (new_MCPClient3 cfg)) (smithery_url info wsc))
                = TimerFired"
    using b cf by simp
  have k: "connect3 W (new_MCPClient3 cfg) =
      (Inl (Error (lit ''Connection timeout'')),
       (new_MCPClient3 cfg)\<lparr>mc_transport := Some (websocket_transport cfg (smithery_url info wsc)),
         mc_connected := False\<rparr>,
       t1 @ [NewWebSocketTransport (smithery_url info wsc), ClientConnect, SetTimeout 30000,
             LogError (lit ''Connection failed to '' @ sc_qualifiedName cfg @ lit '': ''
                         @ lit ''Connection timeout'')])"
    using connect3_timeout[OF nc f ws race] unfolding cf .
  have m: "map_of cs name = None" using b by blast
  have g: "getAndParseServerConfig E (Some name) servers = (Inr cfg, t0)" using b by blast
  show "getOrReconnectClient E W servers cs name =
      (Inl (Error (lit ''Connection timeout'')), cs,
       Warn (lit ''Client for '' @ name @ lit '' not found or disconnected. Reconnecting...'')
         # t0 @ t1
         @ [NewWebSocketTransport (smithery_url info wsc), ClientConnect, SetTimeout 30000,
            LogError (lit ''Connection failed to '' @ sc_qualifiedName cfg @ lit '': ''
                        @ lit ''Connection timeout'')])"
    by (simp add: getOrReconnectClient_def m g k)
next
  assume "fst (getOrReconnectClient E W servers cs name) = Inl err"
  then show "fst (snd (getOrReconnectClient E W servers cs name)) = cs"
    by (rule getOrReconnectClient_failure)
qed

text \<open>
  The example registry resolves \<open>@owner/repo\<close> with three requests, and the timer wins
  the race: \<open>connect\<close> on a new client, and \<open>getOrReconnectClient\<close> on an empty map.
\<close>

theorem connect_timeout_witness:
  "\<not> mc_connected (new_MCPClient3 example_config)
   \<and> map_of ([] :: clients) (lit ''gh'') = None
   \<and> getAndParseServerConfig example_engine (Some (lit ''gh'')) (Some [example_entry]) = (Inr example_config, [])
   \<and> connect3 (example_world TimerFired None) (new_MCPClient3 example_config)
        = (Inl (Error (lit ''Connection timeout'')),
           \<lparr>mc_config = example_config, mc_connected = False,
              mc_transport = Some \<lparr>wt_url = lit ''https://repo.example/ws'',
                                     wt_authorization = lit ''Bearer key''\<rparr>\<rparr>,
           [HttpGetServer (lit ''@owner/repo''),
            HttpListServers (lit ''owner:owner repo:repo is:deployed''),
            HttpGetServer (lit ''@owner/repo-server''),
            NewWebSocketTransport (lit ''https://repo.example/ws''), ClientConnect, SetTimeout 30000,
            LogError (lit ''Connection failed to @owner/repo: Connection timeout'')])
   \<and> getOrReconnectClient example_engine (example_world TimerFired None) (Some [example_entry]) [] (lit ''gh'')
        = (Inl (Error (lit ''Connection timeout'')), [],
           [Warn (lit ''Client for gh not found or disconnected. Reconnecting...''),
            HttpGetServer (lit ''@owner/repo''),
            HttpListServers (lit ''owner:owner repo:repo is:deployed''),
            HttpGetServer (lit ''@owner/repo-server''),
            NewWebSocketTransport (lit ''https://repo.example/ws''), ClientConnect, SetTimeout 30000,
            LogError (lit ''Connection failed to @owner/repo: Connection timeout'')])
   \<and> fst (connect3 (example_world ConnectResolved None) (new_MCPClient3 example_config)) = Inr ()
   \<and> mc_connected (fst (snd (connect3 (example_world ConnectResolved None) (new_MCPClient3 example_config))))
   \<and> fst (connect3 (example_world (ConnectRejected (Error (lit ''Connection closed''))) None)
             (new_MCPClient3 example_config))
        = Inl (Error (lit ''Connection closed''))"
proof -
  let ?c = "new_MCPClient3 example_config"
  let ?t1 = "[HttpGetServer (lit ''@owner/repo''),
              HttpListServers (lit ''owner:owner repo:repo is:deployed''),
              HttpGetServer (lit ''@owner/repo-server'')]"
  let ?wsc = "\<lparr>conn_type = lit ''ws'', conn_url = None\<rparr>"
  have nc: "\<not> mc_connected ?c" by (simp add: new_MCPClient3_def)
  have m: "map_of ([] :: clients) (lit ''gh'') = None" by simp
  have cf: "mc_config ?c = example_config" by (simp add: new_MCPClient3_def)
  have f: "findServerConfiguration (sw_registry (example_world r None))
             (sc_apiKey (mc_config ?c)) (sc_qualifiedName (mc_config ?c)) = (Inr example_info, ?t1)" for r
    using example_find by (simp add: example_world_def new_MCPClient3_def example_config_def)
  have f2: "findServerConfiguration (sw_registry (example_world r None))
             (sc_apiKey example_config) (sc_qualifiedName example_config) = (Inr example_info, ?t1)" for r
    using example_find by (simp add: example_world_def example_config_def)
  have race: "sw_race (example_world r None) t = r" for r t
    by (simp add: example_world_def)
  have url: "smithery_url example_info ?wsc = lit ''https://repo.example/ws''"
    by (simp add: smithery_url_def example_info_def falsy_def)
  have tr: "websocket_transport example_config (lit ''https://repo.example/ws'')
              = \<lparr>wt_url = lit ''https://repo.example/ws'', wt_authorization = lit ''Bearer key''\<rparr>"
    by (simp add: websocket_transport_def example_config_def)
  have qn: "sc_qualifiedName example_config = lit ''@owner/repo''" by (simp add: example_config_def)
  have upd: "?c\<lparr>mc_transport := Some x, mc_connected := b\<rparr>
               = \<lparr>mc_config = example_config, mc_connected = b, mc_transport = Some x\<rparr>" for x b
    by (simp add: new_MCPClient3_def)
  show ?thesis
    using connect_timeout[of ?c "example_world TimerFired None" example_info ?t1 ?wsc
        "Error []" "[]" "lit ''gh''" example_engine "Some [example_entry]" example_config "[]" "Error []"]
      connect_timeout[of ?c "example_world ConnectResolved None" example_info ?t1 ?wsc
        "Error []" "[]" "lit ''gh''" example_engine "Some [example_entry]" example_config "[]" "Error []"]
      connect_timeout[of ?c "example_world (ConnectRejected (Error (lit ''Connection closed''))) None"
        example_info ?t1 ?wsc "Error (lit ''Connection closed'')" "[]" "lit ''gh''" example_engine
        "Some [example_entry]" example_config "[]" "Error []"]
      nc m f f2 race url tr qn upd cf example_find_ws example_parse_entry
    by simp
qed

section \<open>Repeating \<open>connect\<close> and \<open>disconnect\<close>\<close>

lemma connect_try_connected:
  assumes "connect_try W c = (Inr u, c1, tr)"
  shows "mc_connected c1"
proof -
  let ?cfg = "mc_config c"
  obtain r t1 where f: "findServerConfiguration (sw_registry W) (sc_apiKey ?cfg) (sc_qualifiedName ?cfg) = (r, t1)"
    by (cases "findServerConfiguration (sw_registry W) (sc_apiKey ?cfg) (sc_qualifiedName ?cfg)")
  show ?thesis
  proof (cases r)
    case (Inl e)
    then show ?thesis using assms f by (simp add: connect_try_def)
  next
    case (Inr info)
    show ?thesis
    proof (cases "find (\<lambda>conn. conn_type conn = lit ''ws'') (si_connections info)")
      case None
      then show ?thesis using assms f Inr by (simp add: connect_try_def)
    next
      case (Some ws)
      then show ?thesis using assms f Inr
        by (simp add: connect_try_def Let_def split: race_outcome.splits) auto
    qed
  qed
qed

lemma connect3_success_connected:
  assumes "fst (connect3 W c) = Inr ()"
  shows "mc_connected (fst (snd (connect3 W c)))"
proof (cases "mc_connected c")
  case True
  then show ?thesis by (simp add: connect3_def)
next
  case False
  obtain r c1 tr where t: "connect_try W c = (r, c1, tr)" by (cases "connect_try W c") auto
  show ?thesis
  proof (cases r)
    case (Inl e)
    then show ?thesis using assms False t by (simp add: connect3_def)
  next
    case (Inr u)
    then have "mc_connected c1" using connect_try_connected t by blast
    then show ?thesis using False t Inr by (simp add: connect3_def)
  qed
qed

lemma disconnect3_disconnected: "\<not> mc_connected (fst (snd (disconnect3 W c)))"
  by (cases "sw_disconnect W c") (simp_all add: disconnect3_def)

text \<open>
  Claim C10. \<open>connect\<close> on a connected client returns at once: the client is unchanged
  and nothing is requested, built or connected (the trace is empty). \<open>disconnect\<close> on a
  client that is not connected does the same. Hence a second \<open>connect\<close> after a
  successful one, and a second \<open>disconnect\<close> after any \<open>disconnect\<close>, do nothing.
\<close>

theorem connect_disconnect_repeatable:
  "(mc_connected c \<longrightarrow> connect3 W c = (Inr (), c, []))
   \<and> (\<not> mc_connected c \<longrightarrow> disconnect3 W c = (Inr (), c, []))
   \<and> (fst (connect3 W c) = Inr () \<longrightarrow>
        connect3 W (fst (snd (connect3 W c))) = (Inr (), fst (snd (connect3 W c)), []))
   \<and> disconnect3 W (fst (snd (disconnect3 W c))) = (Inr (), fst (snd (disconnect3 W c)), [])"
proof (intro conjI impI)
  show "connect3 W c = (Inr (), c, [])" if "mc_connected c"
    using that by (simp add: connect3_def)
  show "disconnect3 W c = (Inr (), c, [])" if "\<not> mc_connected c"
    using that by (simp add: disconnect3_def)
  show "connect3 W (fst (snd (connect3 W c))) = (Inr (), fst (snd (connect3 W c)), [])"
    if "fst (connect3 W c) = Inr ()"
    using connect3_success_connected[OF that] by (simp add: connect3_def)
  show "disconnect3 W (fst (snd (disconnect3 W c))) = (Inr (), fst (snd (disconnect3 W c)), [])"
    using disconnect3_disconnected[of W c] by (simp add: disconnect3_def)
qed

text \<open>A client that connects, and the same client before it connects.\<close>

theorem connect_disconnect_repeatable_witness:
  "fst (connect3 (example_world ConnectResolved None) (new_MCPClient3 example_config)) = Inr ()
   \<and> mc_connected (fst (snd (connect3 (example_world ConnectResolved None) (new_MCPClient3 example_config))))
   \<and> connect3 (example_world ConnectResolved None)
        (fst (snd (connect3 (example_world ConnectResolved None) (new_MCPClient3 example_config))))
      = (Inr (), fst (snd (connect3 (example_world ConnectResolved None) (new_MCPClient3 example_config))), [])
   \<and> \<not> mc_connected (new_MCPClient3 example_config)
   \<and> disconnect3 (example_world ConnectResolved None) (new_MCPClient3 example_config)
      = (Inr (), new_MCPClient3 example_config, [])"
proof -
  note f = example_find
  have t: "connect_try (example_world ConnectResolved None) (new_MCPClient3 example_config)
        = (Inr (), (new_MCPClient3 example_config)\<lparr>mc_transport :=
                Some \<lparr>wt_url = lit ''https://repo.example/ws'', wt_authorization = lit ''Bearer key''\<rparr>,
              mc_connected := True\<rparr>,
           [HttpGetServer (lit ''@owner/repo''),
            HttpListServers (lit ''owner:owner repo:repo is:deployed''),
            HttpGetServer (lit ''@owner/repo-server''),
            NewWebSocketTransport (lit ''https://repo.example/ws''), ClientConnect, SetTimeout 30000])"
    by (simp add: connect_try_def example_world_def new_MCPClient3_def example_config_def f
          example_info_def falsy_def Let_def smithery_url_def websocket_transport_def)
  have c: "\<not> mc_connected (new_MCPClient3 example_config)"
    by (simp add: new_MCPClient3_def)
  have a: "fst (connect3 (example_world ConnectResolved None) (new_MCPClient3 example_config)) = Inr ()"
    by (simp add: connect3_def t c)
  have b: "mc_connected (fst (snd (connect3 (example_world ConnectResolved None) (new_MCPClient3 example_config))))"
    by (simp add: connect3_def t c)
  show ?thesis
    using connect_disconnect_repeatable[of "new_MCPClient3 example_config" "example_world ConnectResolved None"] a b c
    by simp
qed

section \<open>Resolving a server through the registry\<close>

lemma getServer_trace: "snd (getServer R k qn) = [HttpGetServer (at_name qn)]"
  by (cases "get_servers_by_name R k (at_name qn)") (simp_all add: getServer_def Let_def)

lemma listServers_trace: "snd (listServers R k q) = [HttpListServers q]"
  by (cases "get_servers_by_query R k q") (simp_all add: listServers_def)

lemma searchQuery_plain:
  assumes "cu CHR ''/'' \<notin> set owner" "cu CHR ''@'' \<notin> set owner" "cu CHR ''/'' \<notin> set repo"
  shows "searchQuery (owner @ cu CHR ''/'' # repo)
           = lit ''owner:'' @ owner @ lit '' repo:'' @ repo @ lit '' is:deployed''"
proof -
  have "split (cu CHR ''/'') (owner @ cu CHR ''/'' # repo) = [owner, repo]"
    using assms(1,3) by (simp add: split_word_sep split_no_sep)
  then show ?thesis using assms(2) by (simp add: searchQuery_def remove1_idem)
qed

lemma searchQuery_owner_repo:
  assumes "cu CHR ''/'' \<notin> set owner" "cu CHR ''/'' \<notin> set repo"
  shows "searchQuery (cu CHR ''@'' # owner @ cu CHR ''/'' # repo)
           = lit ''owner:'' @ owner @ lit '' repo:'' @ repo @ lit '' is:deployed''"
proof -
  have "split (cu CHR ''/'') ((cu CHR ''@'' # owner) @ cu CHR ''/'' # repo) = (cu CHR ''@'' # owner) # split (cu CHR ''/'') repo"
    using assms(1) by (intro split_word_sep) simp
  then have "split (cu CHR ''/'') (cu CHR ''@'' # owner @ cu CHR ''/'' # repo) = [cu CHR ''@'' # owner, repo]"
    using assms(2) by (simp add: split_no_sep)
  then show ?thesis by (simp add: searchQuery_def)
qed

text \<open>
  Claim C6. \<open>findServerConfiguration\<close> first asks \<open>getServer\<close> for the qualified name and
  returns what it finds. When that fails it searches with a query made of the owner and
  the repository of the name, takes the first match and returns what \<open>getServer\<close> gives
  for that match: three requests, in this order. It fails only when the direct lookup
  fails and the search path gives nothing (the search fails, has no match, or the lookup
  of its first match fails); with no match the error is \<open>Could not find server matching\<close>
  the name.
\<close>

theorem findServerConfiguration_policy:
  "(fst (getServer R k qn) = Inr info \<longrightarrow>
      findServerConfiguration R k qn = (Inr info, [HttpGetServer (at_name qn)]))
   \<and> (fst (getServer R k qn) = Inl e \<and> fst (listServers R k (searchQuery qn)) = Inr (Some (s # rest)) \<longrightarrow>
      findServerConfiguration R k qn
        = (fst (getServer R k s),
           [HttpGetServer (at_name qn), HttpListServers (searchQuery qn), HttpGetServer (at_name s)]))
   \<and> (fst (findServerConfiguration R k qn) = Inl e2 \<longrightarrow>
      (\<exists>e1. fst (getServer R k qn) = Inl e1)
      \<and> \<not> (\<exists>s rest found. fst (listServers R k (searchQuery qn)) = Inr (Some (s # rest))
                \<and> fst (getServer R k s) = Inr found))
   \<and> (fst (getServer R k qn) = Inl e
        \<and> (fst (listServers R k (searchQuery qn)) = Inr None \<or> fst (listServers R k (searchQuery qn)) = Inr (Some [])) \<longrightarrow>
      fst (findServerConfiguration R k qn) = Inl (Error (lit ''Could not find server matching '' @ qn)))
   \<and> (cu CHR ''/'' \<notin> set owner \<and> cu CHR ''/'' \<notin> set repo \<longrightarrow>
      searchQuery (cu CHR ''@'' # owner @ cu CHR ''/'' # repo)
        = lit ''owner:'' @ owner @ lit '' repo:'' @ repo @ lit '' is:deployed'')
   \<and> (cu CHR ''/'' \<notin> set owner \<and> cu CHR ''@'' \<notin> set owner \<and> cu CHR ''/'' \<notin> set repo \<longrightarrow>
      searchQuery (owner @ cu CHR ''/'' # repo)
        = lit ''owner:'' @ owner @ lit '' repo:'' @ repo @ lit '' is:deployed'')"
proof -
  obtain r1 where g1: "getServer R k qn = (r1, [HttpGetServer (at_name qn)])"
    using getServer_trace[of R k qn] by (cases "getServer R k qn") simp
  obtain r2 where l: "listServers R k (searchQuery qn) = (r2, [HttpListServers (searchQuery qn)])"
    using listServers_trace[of R k "searchQuery qn"] by (cases "listServers R k (searchQuery qn)") simp
  have direct: "findServerConfiguration R k qn = (Inr info, [HttpGetServer (at_name qn)])"
    if "fst (getServer R k qn) = Inr info"
    using that g1 by (simp add: findServerConfiguration_def)
  have search: "findServerConfiguration R k qn
        = (fst (getServer R k s),
           [HttpGetServer (at_name qn), HttpListServers (searchQuery qn), HttpGetServer (at_name s)])"
    if "fst (getServer R k qn) = Inl e" "fst (listServers R k (searchQuery qn)) = Inr (Some (s # rest))"
  proof -
    obtain r3 where g3: "getServer R k s = (r3, [HttpGetServer (at_name s)])"
      using getServer_trace[of R k s] by (cases "getServer R k s") simp
    show ?thesis using that g1 l g3 by (simp add: findServerConfiguration_def)
  qed
  have fails: "(\<exists>e1. fst (getServer R k qn) = Inl e1)
      \<and> \<not> (\<exists>s rest found. fst (listServers R k (searchQuery qn)) = Inr (Some (s # rest))
                \<and> fst (getServer R k s) = Inr found)"
    if f: "fst (findServerConfiguration R k qn) = Inl e2"
  proof (cases r1)
    case (Inr i)
    then show ?thesis using f g1 by (simp add: findServerConfiguration_def)
  next
    case (Inl e1)
    have "fst (getServer R k s') \<noteq> Inr found"
      if "fst (listServers R k (searchQuery qn)) = Inr (Some (s' # rest'))" for s' rest' found
    proof -
      obtain r3 where g3: "getServer R k s' = (r3, [HttpGetServer (at_name s')])"
        using getServer_trace[of R k s'] by (cases "getServer R k s'") simp
      show ?thesis using that f g1 Inl l g3 by (auto simp: findServerConfiguration_def)
    qed
    then show ?thesis using g1 Inl by auto
  qed
  have nomatch: "fst (findServerConfiguration R k qn) = Inl (Error (lit ''Could not find server matching '' @ qn))"
    if "fst (getServer R k qn) = Inl e"
       "fst (listServers R k (searchQuery qn)) = Inr None \<or> fst (listServers R k (searchQuery qn)) = Inr (Some [])"
    using that g1 l by (auto simp: findServerConfiguration_def)
  show ?thesis
    using direct search fails nomatch searchQuery_owner_repo[of owner repo]
      searchQuery_plain[of owner repo]
    by blast
qed

text \<open>
  The scenario of the specification: the direct lookup of \<open>@owner/repo\<close> fails, the
  search returns one match, and the result is that match's information.
\<close>

theorem findServerConfiguration_policy_witness:
  "fst (getServer example_registry (lit ''key'') (lit ''@owner/repo''))
      = Inl (Error (lit ''Failed to get server info for @owner/repo: Request failed with status code 404''))
   \<and> fst (listServers example_registry (lit ''key'') (searchQuery (lit ''@owner/repo''))) = Inr (Some [lit ''@owner/repo-server''])
   \<and> fst (getServer example_registry (lit ''key'') (lit ''@owner/repo-server'')) = Inr example_info
   \<and> findServerConfiguration example_registry (lit ''key'') (lit ''@owner/repo'')
      = (Inr example_info,
         [HttpGetServer (lit ''@owner/repo''), HttpListServers (lit ''owner:owner repo:repo is:deployed''),
          HttpGetServer (lit ''@owner/repo-server'')])
   \<and> searchQuery (lit ''@owner/repo'') = lit ''owner:owner repo:repo is:deployed''
   \<and> findServerConfiguration example_registry (lit ''key'') (lit ''@owner/repo-server'')
      = (Inr example_info, [HttpGetServer (lit ''@owner/repo-server'')])
   \<and> fst (findServerConfiguration example_registry (lit ''key'') (lit ''nothing''))
      = Inl (Error (lit ''Could not find server matching nothing''))"
proof -
  have q: "searchQuery (lit ''@owner/repo'') = lit ''owner:owner repo:repo is:deployed''"
    by (simp add: searchQuery_def lit_def)
  have g1: "fst (getServer example_registry (lit ''key'') (lit ''@owner/repo''))
      = Inl (Error (lit ''Failed to get server info for @owner/repo: Request failed with status code 404''))"
    by (simp add: getServer_def example_registry_def at_name_def startsWith_def lit_def)
  have l: "fst (listServers example_registry (lit ''key'') (searchQuery (lit ''@owner/repo''))) = Inr (Some [lit ''@owner/repo-server''])"
    by (simp add: q listServers_def example_registry_def)
  have g2: "fst (getServer example_registry (lit ''key'') (lit ''@owner/repo-server'')) = Inr example_info"
    by (simp add: getServer_def example_registry_def at_name_def startsWith_def lit_def)
  have a2: "at_name (lit ''@owner/repo-server'') = lit ''@owner/repo-server''" "at_name (lit ''@owner/repo'') = lit ''@owner/repo''"
    by (simp_all add: at_name_def startsWith_def lit_def)
  have g3: "fst (getServer example_registry (lit ''key'') (lit ''nothing''))
      = Inl (Error (lit ''Failed to get server info for nothing: Request failed with status code 404''))"
    by (simp add: getServer_def example_registry_def at_name_def startsWith_def lit_def)
  have l3: "fst (listServers example_registry (lit ''key'') (searchQuery (lit ''nothing''))) = Inr (Some [])"
    by (simp add: searchQuery_def listServers_def example_registry_def lit_def)
  have sl: "cu CHR ''/'' \<notin> set (lit ''owner'') \<and> cu CHR ''/'' \<notin> set (lit ''repo'')" by (simp add: lit_def)
  show ?thesis
    using findServerConfiguration_policy[of example_registry "lit ''key''" "lit ''@owner/repo''" example_info
        "Error (lit ''Failed to get server info for @owner/repo: Request failed with status code 404'')"
        "lit ''@owner/repo-server''" "[]" "Error []" "lit ''owner''" "lit ''repo''"]
      findServerConfiguration_policy[of example_registry "lit ''key''" "lit ''@owner/repo-server''" example_info
        "Error []" "[]" "[]" "Error []" "lit ''owner''" "lit ''repo''"]
      findServerConfiguration_policy[of example_registry "lit ''key''" "lit ''nothing''" example_info
        "Error (lit ''Failed to get server info for nothing: Request failed with status code 404'')"
        "[]" "[]" "Error []" "lit ''owner''" "lit ''repo''"]
      q g1 l g2 a2 g3 l3 sl
    by simp
qed

section \<open>Errors that reach the host\<close>

lemma with_client_connected:
  assumes "parseConfiguration E conf = Inr cfg"
    and "new_MCPClient E W penv cfg True = Inr c"
    and "sdk_connect W (sc_transport c) = None"
    and "fst (stdio_disconnect E W c) = Inr ()"
  shows "fst (with_client E W penv conf request) = request (sc_transport c)"
proof -
  obtain t2 where d2: "stdio_disconnect E W c = (Inr (), t2)"
    using assms(4) by (cases "stdio_disconnect E W c") auto
  show ?thesis using assms(1,2,3) d2 by (simp add: with_client_def stdio_connect_def)
qed








section \<open>The projection of tools\<close>

lemma own_entries_plain_keys:
  assumes "\<forall>k \<in> fst ` set kvs. \<not> is_array_index k"
  shows "own_entries (JObj kvs) = kvs"
proof -
  have a: "filter (\<lambda>kv. is_array_index (fst kv)) kvs = []"
    using assms by (auto simp: filter_empty_conv)
  have b: "filter (\<lambda>kv. \<not> is_array_index (fst kv)) kvs = kvs"
    using assms by (auto simp: filter_id_conv)
  show ?thesis by (simp add: own_entries_def a b)
qed

text \<open>
  Claim C8, amended. \<open>listTools\<close> maps every tool of the request's result, in order, to
  its name, a description and a schema. The description is the tool's own when it has
  one that is not empty, and otherwise \<open>Execute the <name> tool\<close> around the tool's name.
  The schema is the tool's input schema; in \<open>index2.ts\<close> it is the list of the keys of
  the schema's \<open>properties\<close>, or the empty list when there are none. In \<open>index2.ts\<close> the
  projection is what the \<open>try\<close> block returns, and what the action returns when the
  disconnect of its \<open>finally\<close> block returns.
\<close>

theorem listTools_projection:
  "(map_of cache n = Some cl \<and> srv_listTools (ws_server W) cl = Inr (Some raw) \<longrightarrow>
      fst (listTools W cache n) = Inr (map project raw))
   \<and> (fst (getOrReconnectClient E W3 servers cs n) = Inr c3
        \<and> srv_listTools (sw_server W3) c3 = Inr (Some raw) \<longrightarrow>
      fst (listTools3 E W3 servers cs n) = Inr (map project raw))
   \<and> (srv_listTools (stdio_server Ws) tr = Inr (Some raw) \<longrightarrow>
      listTools2_request E Ws tr = Inr (map (project2 E) raw))
   \<and> (parseConfiguration E conf = Inr cfg \<and> new_MCPClient E Ws penv cfg True = Inr sc
        \<and> sdk_connect Ws (sc_transport sc) = None
        \<and> fst (stdio_disconnect E Ws sc) = Inr ()
        \<and> srv_listTools (stdio_server Ws) (sc_transport sc) = Inr (Some raw) \<longrightarrow>
      fst (listTools2 E Ws penv conf) = Inr (map (project2 E) raw))
   \<and> (tool_name t = Some nm \<longrightarrow>
        out_name (project t) = nm \<and> t2_name (project2 E t) = Some nm)
   \<and> (tool_description t = Some d \<and> d \<noteq> [] \<longrightarrow>
        out_description (project t) = d \<and> t2_description (project2 E t) = d)
   \<and> (tool_name t = Some nm \<and> (tool_description t = None \<or> tool_description t = Some []) \<longrightarrow>
        out_description (project t) = lit ''Execute the '' @ nm @ lit '' tool''
        \<and> t2_description (project2 E t) = lit ''Execute the '' @ nm @ lit '' tool'')
   \<and> (tool_inputSchema t = Some sch \<and> sch \<noteq> JNull \<longrightarrow> out_schema (project t) = Some sch)
   \<and> (tool_inputSchema t = Some sch \<and> js_get sch (lit ''properties'') = Some (JObj props)
        \<and> (\<forall>k \<in> fst ` set props. \<not> is_array_index k) \<longrightarrow>
        t2_schema (project2 E t) = map fst props)
   \<and> (tool_inputSchema t = Some sch \<and> js_get sch (lit ''properties'') = Some p
        \<and> truthy (num_is_zero E) p \<longrightarrow>
        Some (t2_schema (project2 E t)) = Object_keys p)
   \<and> (tool_inputSchema t = None
        \<or> (tool_inputSchema t = Some sch \<and> js_get sch (lit ''properties'') = None) \<longrightarrow>
        t2_schema (project2 E t) = [])"
proof (intro conjI impI)
  show "fst (listTools W cache n) = Inr (map project raw)"
    if "map_of cache n = Some cl \<and> srv_listTools (ws_server W) cl = Inr (Some raw)"
    using that by (simp add: listTools_def)
  show "fst (listTools3 E W3 servers cs n) = Inr (map project raw)"
    if a: "fst (getOrReconnectClient E W3 servers cs n) = Inr c3
        \<and> srv_listTools (sw_server W3) c3 = Inr (Some raw)"
  proof -
    obtain cs1 t where g: "getOrReconnectClient E W3 servers cs n = (Inr c3, cs1, t)"
      using a by (cases "getOrReconnectClient E W3 servers cs n") auto
    show ?thesis using a by (simp add: listTools3_def g)
  qed
  show "listTools2_request E Ws tr = Inr (map (project2 E) raw)"
    if "srv_listTools (stdio_server Ws) tr = Inr (Some raw)"
    using that by (simp add: listTools2_request_def)
  show "fst (listTools2 E Ws penv conf) = Inr (map (project2 E) raw)"
    if a: "parseConfiguration E conf = Inr cfg \<and> new_MCPClient E Ws penv cfg True = Inr sc
        \<and> sdk_connect Ws (sc_transport sc) = None
        \<and> fst (stdio_disconnect E Ws sc) = Inr ()
        \<and> srv_listTools (stdio_server Ws) (sc_transport sc) = Inr (Some raw)"
  proof -
    have "fst (with_client E Ws penv conf (listTools2_request E Ws))
            = listTools2_request E Ws (sc_transport sc)"
      using a by (intro with_client_connected) auto
    then show ?thesis using a by (simp add: listTools2_def listTools2_request_def)
  qed
  show "out_name (project t) = nm" if "tool_name t = Some nm"
    using that by (simp add: project_def)
  show "t2_name (project2 E t) = Some nm" if "tool_name t = Some nm"
    using that by (simp add: project2_def)
  show "out_description (project t) = d" if "tool_description t = Some d \<and> d \<noteq> []"
    using that by (simp add: project_def falsy_def show_opt_def)
  show "t2_description (project2 E t) = d" if "tool_description t = Some d \<and> d \<noteq> []"
    using that by (simp add: project2_def)
  show "out_description (project t) = lit ''Execute the '' @ nm @ lit '' tool''"
    if "tool_name t = Some nm \<and> (tool_description t = None \<or> tool_description t = Some [])"
    using that by (auto simp: project_def falsy_def)
  show "t2_description (project2 E t) = lit ''Execute the '' @ nm @ lit '' tool''"
    if "tool_name t = Some nm \<and> (tool_description t = None \<or> tool_description t = Some [])"
    using that by (auto simp: project2_def show_opt_def)
  show "out_schema (project t) = Some sch" if "tool_inputSchema t = Some sch \<and> sch \<noteq> JNull"
    using that by (cases sch) (simp_all add: project_def)
  show "t2_schema (project2 E t) = map fst props"
    if a: "tool_inputSchema t = Some sch \<and> js_get sch (lit ''properties'') = Some (JObj props)
        \<and> (\<forall>k \<in> fst ` set props. \<not> is_array_index k)"
  proof -
    have "own_entries (JObj props) = props" using a by (intro own_entries_plain_keys) blast
    then show ?thesis using a by (simp add: project2_def)
  qed
  show "Some (t2_schema (project2 E t)) = Object_keys p"
    if a: "tool_inputSchema t = Some sch \<and> js_get sch (lit ''properties'') = Some p
        \<and> truthy (num_is_zero E) p"
  proof -
    have "p \<noteq> JNull" using a by auto
    then show ?thesis using a by (simp add: project2_def Object_keys_def)
  qed
  show "t2_schema (project2 E t) = []"
    if "tool_inputSchema t = None
        \<or> (tool_inputSchema t = Some sch \<and> js_get sch (lit ''properties'') = None)"
    using that by (auto simp: project2_def)
qed

text \<open>
  A tool with a description and a tool without one, listed by a cached client and by
  the per-call integration with an SDK client that is named.
\<close>

theorem listTools_projection_witness:
  "map_of [(lit ''gh'', example_client)] (lit ''gh'') = Some example_client
   \<and> fst (listTools
        (example_ws_world (Inr None)
          (Inr (Some [\<lparr>tool_name = Some (lit ''search''), tool_description = Some (lit ''Search the web''),
                        tool_inputSchema = Some (JObj [(lit ''type'', JStr (lit ''object''))])\<rparr>,
                      \<lparr>tool_name = Some (lit ''fetch''), tool_description = None,
                        tool_inputSchema = Some (JObj [])\<rparr>])))
        [(lit ''gh'', example_client)] (lit ''gh''))
     = Inr [\<lparr>out_name = lit ''search'', out_description = lit ''Search the web'',
              out_schema = Some (JObj [(lit ''type'', JStr (lit ''object''))])\<rparr>,
            \<lparr>out_name = lit ''fetch'', out_description = lit ''Execute the fetch tool'',
              out_schema = Some (JObj [])\<rparr>]
   \<and> fst (listTools2 example_engine
        (example_stdio_world (Some (lit ''github-mcp-client'')) CloseReturns (Inr None)
          (Inr (Some [\<lparr>tool_name = Some (lit ''search''), tool_description = Some (lit ''Search the web''),
                        tool_inputSchema =
                          Some (JObj [(lit ''type'', JStr (lit ''object'')),
                                      (lit ''properties'',
                                       JObj [(lit ''query'', JObj []), (lit ''limit'', JObj [])])])\<rparr>,
                      \<lparr>tool_name = Some (lit ''fetch''), tool_description = None,
                        tool_inputSchema = Some (JObj [])\<rparr>]))) []
        (Some (lit ''{\"github\":{\"command\":\"npx\"}}'')))
     = Inr [\<lparr>t2_name = Some (lit ''search''), t2_description = lit ''Search the web'',
              t2_schema = [lit ''query'', lit ''limit'']\<rparr>,
            \<lparr>t2_name = Some (lit ''fetch''), t2_description = lit ''Execute the fetch tool'',
              t2_schema = []\<rparr>]"
proof -
  let ?t1 = "\<lparr>tool_name = Some (lit ''search''), tool_description = Some (lit ''Search the web''),
                tool_inputSchema = Some (JObj [(lit ''type'', JStr (lit ''object''))])\<rparr>"
  let ?t2 = "\<lparr>tool_name = Some (lit ''fetch''), tool_description = None, tool_inputSchema = Some (JObj [])\<rparr>"
  let ?sch = "JObj [(lit ''type'', JStr (lit ''object'')),
                    (lit ''properties'', JObj [(lit ''query'', JObj []), (lit ''limit'', JObj [])])]"
  let ?t3 = "\<lparr>tool_name = Some (lit ''search''), tool_description = Some (lit ''Search the web''),
                tool_inputSchema = Some ?sch\<rparr>"
  let ?W = "example_ws_world (Inr None) (Inr (Some [?t1, ?t2]))"
  let ?Ws = "example_stdio_world (Some (lit ''github-mcp-client'')) CloseReturns (Inr None)
               (Inr (Some [?t3, ?t2]))"
  let ?sc = "\<lparr>sc_transport = StdioTransport (JStr (lit ''npx'')) [] [], sc_has_logger = True\<rparr>"
  let ?cfg = "\<lparr>cfg_connectionType = lit ''stdio'', cfg_command = Some (JStr (lit ''npx'')), cfg_args = None,
      cfg_environments = None, cfg_sseUrl = None, cfg_messagesPostEndpoint = None,
      cfg_headers = None\<rparr>"
  have m: "map_of [(lit ''gh'', example_client)] (lit ''gh'') = Some example_client
           \<and> srv_listTools (ws_server ?W) example_client = Inr (Some [?t1, ?t2])"
    by (simp add: example_ws_world_def example_server_def)
  have p1: "project ?t1 = \<lparr>out_name = lit ''search'', out_description = lit ''Search the web'',
              out_schema = Some (JObj [(lit ''type'', JStr (lit ''object''))])\<rparr>"
    by (simp add: project_def falsy_def show_opt_def)
  have p2: "project ?t2 = \<lparr>out_name = lit ''fetch'', out_description = lit ''Execute the fetch tool'',
              out_schema = Some (JObj [])\<rparr>"
    by (simp add: project_def falsy_def show_opt_def)
  have nk: "\<not> is_array_index (lit ''type'')" "\<not> is_array_index (lit ''properties'')"
    "\<not> is_array_index (lit ''query'')" "\<not> is_array_index (lit ''limit'')"
    by (simp_all add: is_array_index_def is_digit_def lit_def)
  have e1: "own_entries ?sch = [(lit ''type'', JStr (lit ''object'')),
                    (lit ''properties'', JObj [(lit ''query'', JObj []), (lit ''limit'', JObj [])])]"
    by (intro own_entries_plain_keys) (simp add: nk)
  have e2: "own_entries (JObj [(lit ''query'', JObj []), (lit ''limit'', JObj [])])
              = [(lit ''query'', JObj []), (lit ''limit'', JObj [])]"
    by (intro own_entries_plain_keys) (simp add: nk)
  have e3: "own_entries (JObj []) = []" by (simp add: own_entries_def)
  have q1: "project2 example_engine ?t3
              = \<lparr>t2_name = Some (lit ''search''), t2_description = lit ''Search the web'',
                  t2_schema = [lit ''query'', lit ''limit'']\<rparr>"
    by (simp add: project2_def js_get_def e1 e2)
  have q2: "project2 example_engine ?t2
              = \<lparr>t2_name = Some (lit ''fetch''), t2_description = lit ''Execute the fetch tool'',
                  t2_schema = []\<rparr>"
    by (simp add: project2_def js_get_def e3 show_opt_def)
  have w: "sdk_connect ?Ws (sc_transport ?sc) = None
           \<and> srv_listTools (stdio_server ?Ws) (sc_transport ?sc) = Inr (Some [?t3, ?t2])"
    by (simp add: example_stdio_world_def example_server_def)
  have d: "fst (stdio_disconnect example_engine ?Ws ?sc) = Inr ()"
    by (simp add: stdio_disconnect_def example_stdio_world_def)
  show ?thesis
    using listTools_projection[of "[(lit ''gh'', example_client)]" "lit ''gh''" example_client ?W "[?t1, ?t2]"]
      listTools_projection[of "[]" "lit ''gh''" example_client ?W "[?t3, ?t2]" example_engine _ _ _ _
        ?Ws _ "Some (lit ''{\"github\":{\"command\":\"npx\"}}'')" ?cfg "[]" ?sc]
      m p1 p2 q1 q2 w d example_parseConfiguration
      example_new_MCPClient[of "Some (lit ''github-mcp-client'')" CloseReturns "Inr None" "Inr (Some [?t3, ?t2])"]
    by simp
qed

text \<open>
  A description that is present and empty is replaced by the default (\<open>||\<close>, line 140).
\<close>

theorem listTools_empty_description_counterexample:
  "fst (listTools
        (example_ws_world (Inr None)
          (Inr (Some [\<lparr>tool_name = Some (lit ''fetch''), tool_description = Some [],
                        tool_inputSchema = None\<rparr>])))
        [(lit ''gh'', example_client)] (lit ''gh''))
     = Inr [\<lparr>out_name = lit ''fetch'', out_description = lit ''Execute the fetch tool'', out_schema = None\<rparr>]"
  by (simp add: listTools_def example_ws_world_def example_server_def project_def falsy_def)

section \<open>Actions on an unknown internal name\<close>

text \<open>
  Claim C9. In the cached-client integration an action on an internal name without a
  cached client throws nothing for the unknown name and requests nothing: the listings
  are empty, the single results are \<open>undefined\<close>. \<open>executeTool\<close> returns \<open>undefined\<close>
  whenever its parameters are absent or parse, and the only exception it can throw is
  the syntax error of its own parameters.
\<close>

theorem missing_client_returns_empty:
  assumes "map_of cache internalName = None"
  shows "listResources W cache internalName = (Inr [], [])
       \<and> readResource W cache internalName uri = (Inr None, [])
       \<and> listTools W cache internalName = (Inr [], [])
       \<and> listPrompts W cache internalName = (Inr [], [])
       \<and> getPrompt W cache internalName promptName = (Inr None, [])
       \<and> executeTool E W cache internalName toolName None = (Inr None, [])
       \<and> (JSON_parse sp = Some v \<longrightarrow>
            executeTool E W cache internalName toolName (Some sp) = (Inr None, []))
       \<and> (fst (executeTool E W cache internalName toolName stringParameters) = Inl e \<longrightarrow>
            e = SyntaxError (syntax_error_message E (show_opt stringParameters)))"
proof (intro conjI impI)
  show "listResources W cache internalName = (Inr [], [])"
    by (simp add: listResources_def assms)
  show "readResource W cache internalName uri = (Inr None, [])"
    by (simp add: readResource_def assms)
  show "listTools W cache internalName = (Inr [], [])"
    by (simp add: listTools_def assms)
  show "listPrompts W cache internalName = (Inr [], [])"
    by (simp add: listPrompts_def assms)
  show "getPrompt W cache internalName promptName = (Inr None, [])"
    by (simp add: getPrompt_def assms)
  show "executeTool E W cache internalName toolName None = (Inr None, [])"
    by (simp add: executeTool_def falsy_def assms)
  show "executeTool E W cache internalName toolName (Some sp) = (Inr None, [])"
    if "JSON_parse sp = Some v"
    using that by (simp add: executeTool_def falsy_def show_opt_def JSON_parse_throw_def assms)
  show "e = SyntaxError (syntax_error_message E (show_opt stringParameters))"
    if f: "fst (executeTool E W cache internalName toolName stringParameters) = Inl e"
  proof (cases "falsy stringParameters")
    case True
    then show ?thesis using f by (simp add: executeTool_def assms)
  next
    case False
    then show ?thesis using f
      by (cases "JSON_parse (show_opt stringParameters)")
         (simp_all add: executeTool_def JSON_parse_throw_def assms)
  qed
qed

text \<open>An empty cache.\<close>

theorem missing_client_returns_empty_witness:
  "map_of ([] :: cache) (lit ''unknown'') = None
   \<and> listResources (example_ws_world (Inr None) (Inr None)) [] (lit ''unknown'') = (Inr [], [])
   \<and> listTools (example_ws_world (Inr None) (Inr None)) [] (lit ''unknown'') = (Inr [], [])
   \<and> JSON_parse (lit ''{\"a\":1}'') = Some (JObj [(lit ''a'', JNum (lit ''1''))])
   \<and> executeTool example_engine (example_ws_world (Inr None) (Inr None)) [] (lit ''unknown'') (lit ''t'') (Some (lit ''{\"a\":1}''))
        = (Inr None, [])"
proof -
  have m: "map_of ([] :: cache) (lit ''unknown'') = None" by simp
  have p: "JSON_parse (lit ''{\"a\":1}'') = Some (JObj [(lit ''a'', JNum (lit ''1''))])" by code_simp
  show ?thesis
    using missing_client_returns_empty[OF m, of "example_ws_world (Inr None) (Inr None)" "lit ''u''" "lit ''p''"
        example_engine "lit ''t''" "lit ''{\"a\":1}''" "JObj [(lit ''a'', JNum (lit ''1''))]" None "Error []"] p
    by simp
qed

end
